theory Spec2Isabelle
  imports Complex_Main
begin

section \<open>Behavioural scoring, alerting and tactic selection\<close>

text \<open>
  A shallow embedding of the decision core of \<^verbatim>\<open>backend/main.py\<close> and
  \<^verbatim>\<open>backend/reasoning.py\<close>: \<^verbatim>\<open>compute_scores\<close>, \<^verbatim>\<open>detect_alerts\<close>,
  the rolling \<^verbatim>\<open>state_memory\<close> of \<^verbatim>\<open>analyze\<close>, the rotation lookup
  \<^verbatim>\<open>_get_tactic\<close> and the selection cascade \<^verbatim>\<open>_psychology_fallback\<close>.

  Conventions of the embedding.
  \<^item> Python \<^verbatim>\<open>str\<close> is \<^typ>\<open>string\<close>, read as the UTF-8 bytes of the text; every
    character outside ASCII is written byte by byte. All substring tests of the source use
    ASCII needles, for which byte-wise and code-point-wise search agree.
  \<^item> Python \<^verbatim>\<open>float\<close> scores are \<^typ>\<open>real\<close>. Every weight of \<^verbatim>\<open>compute_scores\<close>
    is an integer or a half, so its sums are exact in binary floating point as well; the
    window means of \<^verbatim>\<open>detect_alerts\<close> are taken in exact arithmetic.
  \<^item> A \<^verbatim>\<open>dict\<close> read with \<^verbatim>\<open>.get\<close> is a map; the snapshot \<^verbatim>\<open>current_state\<close>,
    which \<^verbatim>\<open>analyze\<close> always builds with the same eight keys, is a record.
  \<^item> Module-level mutable state is passed in and returned.
\<close>

subsection \<open>Dictionaries\<close>

definition dict_get :: "('k \<rightharpoonup> 'v) \<Rightarrow> 'k \<Rightarrow> 'v \<Rightarrow> 'v" where
  \<comment> \<open>\<^verbatim>\<open>d.get(k, dflt)\<close>\<close>
  "dict_get d k dflt = (case d k of None \<Rightarrow> dflt | Some v \<Rightarrow> v)"

definition audio_get :: "(string \<rightharpoonup> string) option \<Rightarrow> string \<Rightarrow> string \<Rightarrow> string" where
  \<comment> \<open>\<^verbatim>\<open>audio_signals.get(k, dflt) if audio_signals else dflt\<close>: \<open>None\<close> is Python's
      \<^verbatim>\<open>None\<close>; an empty dict is falsy too, and \<^verbatim>\<open>.get\<close> on it gives the same default.\<close>
  "audio_get audio_signals k dflt =
     (case audio_signals of None \<Rightarrow> dflt | Some a \<Rightarrow> dict_get a k dflt)"

subsection \<open>Score derivation (\<^verbatim>\<open>compute_scores\<close>, main.py)\<close>

definition attention_map :: "string \<rightharpoonup> real" where
  "attention_map = [''high'' \<mapsto> 30, ''medium'' \<mapsto> 10, ''low'' \<mapsto> - 20]"

definition emotion_eng_map :: "string \<rightharpoonup> real" where
  "emotion_eng_map =
     [''happy'' \<mapsto> 15, ''surprised'' \<mapsto> 10, ''neutral'' \<mapsto> 0,
      ''sad'' \<mapsto> - 10, ''angry'' \<mapsto> - 5, ''disgusted'' \<mapsto> - 15, ''fearful'' \<mapsto> - 10]"

definition posture_map :: "string \<rightharpoonup> real" where
  "posture_map =
     [''upright'' \<mapsto> 10, ''leaning_forward'' \<mapsto> 15, ''neutral'' \<mapsto> 0, ''slouched'' \<mapsto> - 15]"

definition speech_map :: "string \<rightharpoonup> real" where
  "speech_map = [''fast'' \<mapsto> - 5, ''normal'' \<mapsto> 5, ''slow'' \<mapsto> 0, ''silent'' \<mapsto> - 10]"

definition emotion_stress_map :: "string \<rightharpoonup> real" where
  "emotion_stress_map =
     [''fearful'' \<mapsto> 40, ''angry'' \<mapsto> 35, ''disgusted'' \<mapsto> 25,
      ''sad'' \<mapsto> 20, ''surprised'' \<mapsto> 15, ''neutral'' \<mapsto> 5, ''happy'' \<mapsto> - 10]"

definition tone_stress_map :: "string \<rightharpoonup> real" where
  "tone_stress_map = [''stressed'' \<mapsto> 25, ''calm'' \<mapsto> - 10, ''neutral'' \<mapsto> 0, ''excited'' \<mapsto> 10]"

definition pause_stress_map :: "string \<rightharpoonup> real" where
  "pause_stress_map = [''frequent'' \<mapsto> 15, ''minimal'' \<mapsto> 0, ''none'' \<mapsto> 5]"

definition movement_stress_map :: "string \<rightharpoonup> real" where
  "movement_stress_map = [''restless'' \<mapsto> 20, ''moderate'' \<mapsto> 5, ''still'' \<mapsto> - 5]"

definition conf_posture_map :: "string \<rightharpoonup> real" where
  "conf_posture_map =
     [''upright'' \<mapsto> 20, ''leaning_forward'' \<mapsto> 15, ''neutral'' \<mapsto> 0, ''slouched'' \<mapsto> - 20]"

definition conf_emotion_map :: "string \<rightharpoonup> real" where
  "conf_emotion_map =
     [''happy'' \<mapsto> 15, ''neutral'' \<mapsto> 5, ''surprised'' \<mapsto> - 5,
      ''angry'' \<mapsto> - 10, ''fearful'' \<mapsto> - 25, ''sad'' \<mapsto> - 15, ''disgusted'' \<mapsto> - 10]"

definition conf_speech_map :: "string \<rightharpoonup> real" where
  "conf_speech_map = [''fast'' \<mapsto> - 5, ''normal'' \<mapsto> 10, ''slow'' \<mapsto> - 5, ''silent'' \<mapsto> - 15]"

definition compute_scores ::
  "(string \<rightharpoonup> string) \<Rightarrow> (string \<rightharpoonup> string) option \<Rightarrow> real \<times> real \<times> real" where
  "compute_scores vision_signals audio_signals =
     (let emotion = dict_get vision_signals ''emotion'' ''neutral'';
          attention = dict_get vision_signals ''attention'' ''medium'';
          posture = dict_get vision_signals ''posture'' ''neutral'';
          movement = dict_get vision_signals ''movement'' ''moderate'';
          speech_speed = audio_get audio_signals ''speech_speed'' ''normal'';
          pauses = audio_get audio_signals ''pauses'' ''minimal'';
          tone = audio_get audio_signals ''tone_indicator'' ''neutral'';
          engagement = 50 + dict_get attention_map attention 0
                          + dict_get emotion_eng_map emotion 0
                          + dict_get posture_map posture 0
                          + dict_get speech_map speech_speed 0;
          engagement = max 0 (min 100 engagement);
          stress = 20 + dict_get emotion_stress_map emotion 0
                      + dict_get tone_stress_map tone 0
                      + dict_get pause_stress_map pauses 0
                      + dict_get movement_stress_map movement 0;
          stress = max 0 (min 100 stress);
          confidence = 50 + dict_get attention_map attention 0 * (1 / 2)
                          + dict_get conf_posture_map posture 0
                          + dict_get conf_emotion_map emotion 0
                          + dict_get conf_speech_map speech_speed 0;
          confidence = max 0 (min 100 confidence)
      in (engagement, stress, confidence))"

subsubsection \<open>The score tables as the specification words them\<close>

text \<open>
  The second reading of the formulas, written from the table of the design document
  (baseline, then one weight per categorical signal, a value outside the table weighing
  nothing), to be compared with \<^const>\<open>compute_scores\<close>.
\<close>

definition spec_attention_weight :: "string \<Rightarrow> real" where
  "spec_attention_weight a =
     (if a = ''high'' then 30 else if a = ''medium'' then 10 else if a = ''low'' then - 20 else 0)"

definition spec_engagement_emotion :: "string \<Rightarrow> real" where
  "spec_engagement_emotion e =
     (if e = ''happy'' then 15 else if e = ''surprised'' then 10 else if e = ''neutral'' then 0
      else if e = ''sad'' then - 10 else if e = ''angry'' then - 5
      else if e = ''disgusted'' then - 15 else if e = ''fearful'' then - 10 else 0)"

definition spec_engagement_posture :: "string \<Rightarrow> real" where
  "spec_engagement_posture p =
     (if p = ''upright'' then 10 else if p = ''leaning_forward'' then 15
      else if p = ''neutral'' then 0 else if p = ''slouched'' then - 15 else 0)"

definition spec_engagement_speech :: "string \<Rightarrow> real" where
  "spec_engagement_speech s =
     (if s = ''fast'' then - 5 else if s = ''normal'' then 5
      else if s = ''slow'' then 0 else if s = ''silent'' then - 10 else 0)"

definition spec_stress_emotion :: "string \<Rightarrow> real" where
  "spec_stress_emotion e =
     (if e = ''fearful'' then 40 else if e = ''angry'' then 35 else if e = ''disgusted'' then 25
      else if e = ''sad'' then 20 else if e = ''surprised'' then 15
      else if e = ''neutral'' then 5 else if e = ''happy'' then - 10 else 0)"

definition spec_stress_tone :: "string \<Rightarrow> real" where
  "spec_stress_tone t =
     (if t = ''stressed'' then 25 else if t = ''calm'' then - 10
      else if t = ''neutral'' then 0 else if t = ''excited'' then 10 else 0)"

definition spec_stress_pauses :: "string \<Rightarrow> real" where
  "spec_stress_pauses p =
     (if p = ''frequent'' then 15 else if p = ''minimal'' then 0 else if p = ''none'' then 5 else 0)"

definition spec_stress_movement :: "string \<Rightarrow> real" where
  "spec_stress_movement m =
     (if m = ''restless'' then 20 else if m = ''moderate'' then 5 else if m = ''still'' then - 5 else 0)"

definition spec_confidence_posture :: "string \<Rightarrow> real" where
  "spec_confidence_posture p =
     (if p = ''upright'' then 20 else if p = ''leaning_forward'' then 15
      else if p = ''neutral'' then 0 else if p = ''slouched'' then - 20 else 0)"

definition spec_confidence_emotion :: "string \<Rightarrow> real" where
  "spec_confidence_emotion e =
     (if e = ''happy'' then 15 else if e = ''neutral'' then 5 else if e = ''surprised'' then - 5
      else if e = ''angry'' then - 10 else if e = ''fearful'' then - 25
      else if e = ''sad'' then - 15 else if e = ''disgusted'' then - 10 else 0)"

definition spec_confidence_speech :: "string \<Rightarrow> real" where
  "spec_confidence_speech s =
     (if s = ''fast'' then - 5 else if s = ''normal'' then 10
      else if s = ''slow'' then - 5 else if s = ''silent'' then - 15 else 0)"

definition spec_clamp :: "real \<Rightarrow> real" where
  "spec_clamp x = (if x < 0 then 0 else if x > 100 then 100 else x)"

definition spec_engagement :: "string \<Rightarrow> string \<Rightarrow> string \<Rightarrow> string \<Rightarrow> real" where
  "spec_engagement attention emotion posture speech =
     spec_clamp (50 + (spec_attention_weight attention + spec_engagement_emotion emotion
                       + spec_engagement_posture posture + spec_engagement_speech speech))"

definition spec_stress :: "string \<Rightarrow> string \<Rightarrow> string \<Rightarrow> string \<Rightarrow> real" where
  "spec_stress emotion tone pauses movement =
     spec_clamp (20 + (spec_stress_emotion emotion + spec_stress_tone tone
                       + spec_stress_pauses pauses + spec_stress_movement movement))"

definition spec_confidence :: "string \<Rightarrow> string \<Rightarrow> string \<Rightarrow> string \<Rightarrow> real" where
  "spec_confidence attention posture emotion speech =
     spec_clamp (50 + (spec_attention_weight attention / 2 + spec_confidence_posture posture
                       + spec_confidence_emotion emotion + spec_confidence_speech speech))"

subsection \<open>Snapshots and alerts (\<^verbatim>\<open>detect_alerts\<close>, main.py)\<close>

record state =
  emotion :: string
  posture :: string
  attention :: string
  movement :: string
  engagement_score :: real
  stress_score :: real
  confidence_score :: real
  audio :: "string \<rightharpoonup> string"

definition alert_engagement_dropping :: string where
  "alert_engagement_dropping =
     [CHR 0xE2, CHR 0x9A, CHR 0xA0, CHR 0xEF, CHR 0xB8, CHR 0x8F] @ '' Engagement dropping significantly''"

definition alert_stress_spiking :: string where
  "alert_stress_spiking =
     [CHR 0xE2, CHR 0x9A, CHR 0xA0, CHR 0xEF, CHR 0xB8, CHR 0x8F] @ '' Stress level spiking''"

definition alert_very_low_engagement :: string where
  "alert_very_low_engagement =
     [CHR 0xF0, CHR 0x9F, CHR 0x94, CHR 0xB4] @ '' Very low engagement detected''"

definition alert_high_stress :: string where
  "alert_high_stress = [CHR 0xF0, CHR 0x9F, CHR 0x94, CHR 0xB4] @ '' High stress detected''"

definition alert_attention_lost :: string where
  "alert_attention_lost =
     [CHR 0xE2, CHR 0x9A, CHR 0xA0, CHR 0xEF, CHR 0xB8, CHR 0x8F] @ '' Attention lost ''
       @ [CHR 0xE2, CHR 0x80, CHR 0x93] @ '' subject is disengaged''"

definition detect_alerts :: "state \<Rightarrow> state list \<Rightarrow> string list" where
  "detect_alerts current memory =
     (if length memory < 2 then []
      else
        let alerts = [];
            prev_states = drop (length memory - 3) memory;
            prev_avg_eng = sum_list (map engagement_score prev_states) / real (length prev_states);
            alerts = (if engagement_score current < prev_avg_eng - 20
                      then alerts @ [alert_engagement_dropping] else alerts);
            prev_avg_stress = sum_list (map stress_score prev_states) / real (length prev_states);
            alerts = (if stress_score current > prev_avg_stress + 20
                      then alerts @ [alert_stress_spiking] else alerts);
            alerts = (if engagement_score current < 30
                      then alerts @ [alert_very_low_engagement] else alerts);
            alerts = (if stress_score current > 75
                      then alerts @ [alert_high_stress] else alerts);
            alerts = (if attention current = ''low''
                      then alerts @ [alert_attention_lost] else alerts)
        in alerts)"



definition snapshot :: "string \<Rightarrow> string \<Rightarrow> real \<Rightarrow> real \<Rightarrow> state" where
  "snapshot e a eng st =
     \<lparr>emotion = e, posture = ''neutral'', attention = a, movement = ''moderate'',
      engagement_score = eng, stress_score = st, confidence_score = 50, audio = Map.empty\<rparr>"

subsection \<open>The rolling memory of \<^verbatim>\<open>analyze\<close>\<close>

definition append_memory :: "'a list \<Rightarrow> 'a \<Rightarrow> 'a list" where
  "append_memory state_memory current_state =
     (let state_memory = state_memory @ [current_state]
      in if length state_memory > 5 then tl state_memory else state_memory)"

subsection \<open>The tactic catalogue (\<^verbatim>\<open>TACTICS\<close>, reasoning.py)\<close>

text \<open>
  A key of the catalogue is either a 4-tuple of strings (emotion, attention, stress zone,
  engagement zone) or one of the four crisis strings \<^verbatim>\<open>"__engagement_drop__"\<close>,
  \<^verbatim>\<open>"__stress_spike__"\<close>, \<^verbatim>\<open>"__inconsistency__"\<close>, \<^verbatim>\<open>"__attention_lost__"\<close>,
  the only string keys the module ever uses. Both kinds are truthy in Python.
  An entry is a string or a list of strings (\<^verbatim>\<open>isinstance(entry, str)\<close> tells them
  apart); the texts below are those of the source, one constant per catalogue key.
\<close>

datatype crisis = engagement_drop | stress_spike | inconsistency | attention_lost

datatype key = TK string string string string | Crisis crisis

datatype entry = Single string | Variants "string list"

definition TACTICS_neutral_low_low_low :: "string list" where
  "TACTICS_neutral_low_low_low =
    [''Gaze drifted + engagement collapsed '' @ [CHR 0xE2, CHR 0x80, CHR 0x94] @ '' pattern interrupt: call their name, hold 3 seconds of silence, then ask ONE question: 'What's actually on your mind right now?'' @ [CHR 0x27],
     ''Still disengaged after the interrupt. Abandon the current frame entirely. Ask: 'If we set aside everything discussed so far '' @ [CHR 0xE2, CHR 0x80, CHR 0x94] @ '' what do YOU think the real issue is?'' @ [CHR 0x27],
     ''Prolonged disengagement with calm signals = boredom. Use the Ben Franklin effect: ask them to help you with something small. Requested effort re-activates investment.'']"

definition TACTICS_neutral_low_mid_low :: "string list" where
  "TACTICS_neutral_low_mid_low =
    [''Attention lost under stress '' @ [CHR 0xE2, CHR 0x80, CHR 0x94] @ '' they're mentally elsewhere under pressure. Stop all content. Ask: 'What's the one thing that needs to be resolved for you to stay present here?'' @ [CHR 0x27],
     ''Still distracted under stress. Their working memory is saturated. Strip down to ONE sentence, then stay silent '' @ [CHR 0xE2, CHR 0x80, CHR 0x94] @ '' give their brain space to surface what's blocking them.'',
     ''Sustained stress-distraction. Name it directly: 'It feels like something outside this conversation is competing for your attention.' Naming the distraction often dissolves it.'']"

definition TACTICS_neutral_low_low_mid :: "string list" where
  "TACTICS_neutral_low_low_mid =
    [''Mild attention drift. Deploy the Ben Franklin effect: ask a small favor or genuine opinion to re-activate investment. Effort creates engagement.'',
     ''Still wandering. Introduce a surprising fact or unexpected reframe to trigger a novelty response and pull focus back.'',
     ''Try an information gap hook: reveal one piece of information they don't know yet, then pause. The gap creates an itch that re-engages attention automatically.'']"

definition TACTICS_neutral_low_mid_mid :: "string list" where
  "TACTICS_neutral_low_mid_mid =
    [''Attention fracturing under moderate stress. Ask: 'If you had to rank the priorities right now, what comes first?' Decision-making forces re-engagement.'',
     ''Still split-attention. Strip your message to ONE sentence, hold silence, don't fill it. Let them break the silence '' @ [CHR 0xE2, CHR 0x80, CHR 0x94] @ '' what they say next is your real intelligence.'',
     ''Still distracted. Reframe by asking for their story from the beginning: narrative mode re-engages the prefrontal cortex.'']"

definition TACTICS_neutral_high_low_high :: "string list" where
  "TACTICS_neutral_high_low_high =
    [''Peak analytical state '' @ [CHR 0xE2, CHR 0x80, CHR 0x94] @ '' focused gaze, calm signals. Introduce your strongest data point and follow with: 'What specific outcome matters most to you?'' @ [CHR 0x27],
     ''Still in analytical mode. Use the 'Columbo technique': ask a deceptively simple question about a complex topic. Their detailed answer reveals exactly what they care about.'',
     ''Sustained high focus. Deploy your core message and hold silence. Analytically-dominant people perceive silence as confidence, not weakness.'']"

definition TACTICS_neutral_high_low_mid :: "string list" where
  "TACTICS_neutral_high_low_mid =
    [''Low stress, high attention '' @ [CHR 0xE2, CHR 0x80, CHR 0x94] @ '' clean slate. Deploy 'commitment and consistency': ask a small yes-question first: 'Would you agree that X is the main priority here?'' @ [CHR 0x27],
     ''Still focused and calm. Use authority anchoring: cite a specific credible source before your point. Authority cues double retention in calm attentive listeners.'',
     ''Sustained attentive baseline. Introduce a contrast: show where things could be different. Contrast drives decisions even when emotional arousal is low.'']"

definition TACTICS_neutral_medium_low_high :: "string list" where
  "TACTICS_neutral_medium_low_high =
    [''Good engagement with calm physiology '' @ [CHR 0xE2, CHR 0x80, CHR 0x94] @ '' ideal for rapport deepening. Mirror their vocabulary, sentence length, and pace precisely.'',
     ''Sustained high engagement. Use progressive disclosure '' @ [CHR 0xE2, CHR 0x80, CHR 0x94] @ '' one new piece of information at a time. Scarcity of information increases perceived value.'',
     ''Long-duration high-engagement state. Ask your most important question now '' @ [CHR 0xE2, CHR 0x80, CHR 0x94] @ '' they are mentally ready to engage at depth.'']"

definition TACTICS_neutral_medium_low_mid :: "string list" where
  "TACTICS_neutral_medium_low_mid =
    [''Stable moderate engagement '' @ [CHR 0xE2, CHR 0x80, CHR 0x94] @ '' rapport territory. Use strategic mirroring: repeat their last 2-3 words as a question to deepen their explanation and signal deep listening.'',
     ''Continued stable baseline. Ask: 'How does this connect to what matters most to you?' Open-ended questions build psychological intimacy and increase investment.'',
     ''Sustained stable state. Deploy a label: 'It seems like you're carefully considering the implications here.' A well-placed label makes them feel deeply understood.'']"

definition TACTICS_neutral_medium_mid_mid :: "string list" where
  "TACTICS_neutral_medium_mid_mid =
    [''Moderate stress with partial engagement '' @ [CHR 0xE2, CHR 0x80, CHR 0x94] @ '' say less, ask more. Questions generate lower cognitive load than statements.'',
     ''Continued mid-stress. Use a 'no'-oriented question: 'Would it be unreasonable to say you'd prefer to slow down here?' Gives them control and releases pressure.'',
     ''Persisting mid-stress. Try reframing entirely: introduce a third perspective neither of you has discussed. Novel frames release cognitive tension.'']"

definition TACTICS_neutral_high_mid_high :: "string list" where
  "TACTICS_neutral_high_mid_high =
    [''High attention + rising stress = cognitive load building. FBI technique: slow your speech 20%, drop pitch, label: 'It seems like you're weighing something carefully'' @ [CHR 0xE2, CHR 0x80, CHR 0xA6, CHR 0x27],
     ''High engagement under moderate stress. Ask expansively: 'If pressure weren't a factor at all, what would you do?' Removes the stress frame momentarily.'',
     ''Sustained stress under high attention. Use the 'accusation audit': name every objection you think they have before they voice it. Anticipating resistance disarms it.'']"

definition TACTICS_happy_high_low_high :: "string list" where
  "TACTICS_happy_high_low_high =
    [''Buying signal '' @ [CHR 0xE2, CHR 0x80, CHR 0x94] @ '' smile, upright posture, full attention. This is your close window. Use the assumptive close: 'So the next step would be'' @ [CHR 0xE2, CHR 0x80, CHR 0xA6, CHR 0x27] @ '' '' @ [CHR 0xE2, CHR 0x80, CHR 0x94] @ '' transition as if agreement is made.'',
     ''Still at peak positive state. Switch to a choice close: 'Would you prefer to start with X or Y?' Either answer advances things forward.'',
     ''Sustained happiness + high engagement. Activate social proof NOW: 'Others in your exact situation chose this path because'' @ [CHR 0xE2, CHR 0x80, CHR 0xA6, CHR 0x27] @ '' Positive states make social proof 3'' @ [CHR 0xC3, CHR 0x97] @ '' more effective.'']"

definition TACTICS_happy_high_low_mid :: "string list" where
  "TACTICS_happy_high_low_mid =
    [''Positive affect + focused attention = likability peak. Activate reciprocity: share something exclusive or personal to cement the connection before your key ask.'',
     ''Still at likability peak. Express a genuine point of commonality '' @ [CHR 0xE2, CHR 0x80, CHR 0x94] @ '' perceived similarity is one of the fastest compliance triggers known.'',
     ''Sustained positive engagement. Tell a relevant success story about someone similar to them. Story activates mirror neurons and bypasses analytical resistance.'']"

definition TACTICS_happy_medium_low_high :: "string list" where
  "TACTICS_happy_medium_low_high =
    [''Relaxed happiness + high engagement '' @ [CHR 0xE2, CHR 0x80, CHR 0x94] @ '' perfect for social proof. Reference: 'Others in this situation have found that'' @ [CHR 0xE2, CHR 0x80, CHR 0xA6, CHR 0x27] @ '' to anchor your proposal in consensus.'',
     ''Positive state, moderate attention. Ask for their gut reaction: 'What's your instinct on this?' Gut-level questions deepen investment in outcomes.'',
     ''Sustained positive state. Use future-pacing: 'Imagine six months from now this worked '' @ [CHR 0xE2, CHR 0x80, CHR 0x94] @ '' what changed?' Future projection in a positive state is highly generative.'']"

definition TACTICS_happy_high_mid_high :: "string list" where
  "TACTICS_happy_high_mid_high =
    [''Joy + slight stress '' @ [CHR 0xE2, CHR 0x80, CHR 0x94] @ '' excitement or performance anxiety. Channel it: 'If this worked perfectly, what would that look like for you?'' @ [CHR 0x27],
     ''Continued positive arousal. Use 'foot in the door': make your smallest possible ask first. Success with small asks primes compliance for larger ones.'',
     ''Sustained excited state. Connect to their identity: 'This fits someone who values X '' @ [CHR 0xE2, CHR 0x80, CHR 0x94] @ '' and from everything you've said, that's exactly who you are.' Identity framing is deeply motivating.'']"

definition TACTICS_surprised_high_low_high :: "string list" where
  "TACTICS_surprised_high_low_high =
    [''Peak curiosity window '' @ [CHR 0xE2, CHR 0x80, CHR 0x94] @ '' elevated brows, wide eyes. Deliver your single strongest point RIGHT NOW while the dopamine spike is active. Hesitation closes this window in 8 seconds.'',
     ''Still in curiosity state. Stack a second surprise layer: 'And what makes this even more compelling is'' @ [CHR 0xE2, CHR 0x80, CHR 0xA6, CHR 0x27] @ '' Stacked surprises compound the dopamine response.'',
     ''Sustained surprise = genuine fascination. Transition to co-creation: 'What would YOU do with this information?' Co-creation in curiosity state is extremely productive.'']"

definition TACTICS_surprised_high_mid_mid :: "string list" where
  "TACTICS_surprised_high_mid_mid =
    [''Surprise + moderate stress '' @ [CHR 0xE2, CHR 0x80, CHR 0x94] @ '' new information is creating cognitive dissonance. Hold silence for 5 seconds, then ask: 'What's your first reaction to that?'' @ [CHR 0x27],
     ''Still processing. Ask: 'What part of this is most unexpected to you?' Surfaces their actual objection or point of fascination '' @ [CHR 0xE2, CHR 0x80, CHR 0x94] @ '' critical intelligence.'',
     ''Continued surprise-processing. Use an accusation audit: name all the doubts you think they're having. Naming eliminates resistance faster than overcoming it.'']"

definition TACTICS_surprised_medium_mid_mid :: "string list" where
  "TACTICS_surprised_medium_mid_mid =
    [''Mild surprise with moderate engagement '' @ [CHR 0xE2, CHR 0x80, CHR 0x94] @ '' processing is happening. Use the accusation audit: preemptively name their concern before they voice it.'',
     ''Still processing mildly. Ask: 'What would need to be true for this to make complete sense to you?' Question converts surprise into a solvable frame.'',
     ''Sustained mild surprise. Introduce additional supporting evidence '' @ [CHR 0xE2, CHR 0x80, CHR 0x94] @ '' people in a curiosity state absorb information more quickly than in any other state.'']"

definition TACTICS_fearful_low_high_low :: "string list" where
  "TACTICS_fearful_low_high_low =
    [''Fight-or-flight activated '' @ [CHR 0xE2, CHR 0x80, CHR 0x94] @ '' body withdrawal, speech pauses. STOP all arguments. Label: 'It seems like this feels overwhelming right now.' Then wait silently.'',
     ''Still in fear state '' @ [CHR 0xE2, CHR 0x80, CHR 0x94] @ '' amygdala hijacked, logic inaccessible. Offer an off-ramp: 'We don't need to solve this right now. What would make this feel less urgent?'' @ [CHR 0x27],
     ''Prolonged fear. Match your pace to a calm FM DJ voice: very slow, warm, deliberate. Their nervous system will entrain to your calm signals within 90 seconds.'']"

definition TACTICS_fearful_medium_high_low :: "string list" where
  "TACTICS_fearful_medium_high_low =
    [''Stress flooding with partial attention. Ask a 'no'-oriented question: 'Would it be wrong to say you need more time on this?' Restores control.'',
     ''Fear persisting. Label the internal experience: 'It seems like there's a concern that hasn't been voiced yet.' Creates permission to surface the real objection.'',
     ''Sustained fear-partial-attention mix. Validate completely BEFORE introducing any counter-information. Validation before information is the FBI protocol.'']"

definition TACTICS_fearful_low_high_mid :: "string list" where
  "TACTICS_fearful_low_high_mid =
    [''Fear state with moderate engagement '' @ [CHR 0xE2, CHR 0x80, CHR 0x94] @ '' they want to engage but feel unsafe. Validate fully: 'That concern makes complete sense given what you've described.'' @ [CHR 0x27],
     ''Still fearful but engaged. Create psychological safety: 'There's no wrong answer here '' @ [CHR 0xE2, CHR 0x80, CHR 0x94] @ '' I'm genuinely trying to understand your perspective.' Safety unlocks re-engagement.'',
     ''Prolonged fear-engagement mix. Ask: 'What specifically would need to be true for you to feel confident moving forward?' Converts anxiety into a solvable problem.'']"

definition TACTICS_fearful_medium_mid_mid :: "string list" where
  "TACTICS_fearful_medium_mid_mid =
    [''Mild anxiety '' @ [CHR 0xE2, CHR 0x80, CHR 0x94] @ '' this is buying anxiety, not rejection. Use 'That's right': summarize their position so accurately they feel completely understood.'',
     ''Continued mild anxiety. Introduce future certainty: describe a specific positive future involving them. Certainty of outcome reduces anxiety biologically.'',
     ''Persistent low-grade anxiety. Ask: 'What's the one thing that would eliminate that concern?' Directs their energy toward solutions rather than problems.'']"

definition TACTICS_angry_medium_high_low :: "string list" where
  "TACTICS_angry_medium_high_low =
    [''Anger spike '' @ [CHR 0xE2, CHR 0x80, CHR 0x94] @ '' jaw tension, restless movement. Do NOT match energy. Lower your volume 30%, let them finish, then label: 'It sounds like this has been frustrating for a long time.'' @ [CHR 0x27],
     ''Anger persisting. Use minimal encouragers '' @ [CHR 0xE2, CHR 0x80, CHR 0x94] @ '' say only 'go on' or 'tell me more'. People cannot sustain anger while feeling genuinely heard.'',
     ''Sustained anger + low engagement: a core need is unmet. Ask: 'What do you actually need from this situation?' '' @ [CHR 0xE2, CHR 0x80, CHR 0x94] @ '' shift from positions to underlying needs.'']"

definition TACTICS_angry_low_high_low :: "string list" where
  "TACTICS_angry_low_high_low =
    [''Hot anger + disengagement '' @ [CHR 0xE2, CHR 0x80, CHR 0x94] @ '' they've mentally left. Emergency pivot: 'Help me understand '' @ [CHR 0xE2, CHR 0x80, CHR 0x94] @ '' what would have to change for this to work for you?' Ask ONLY about their perspective.'',
     ''Still angry and gone. Acknowledge without defending: 'I hear that this is not working. That matters.' Pure acknowledgment without defense.'',
     ''Prolonged anger-disengagement. Give them power: 'What would you do differently if you were in charge of this?' Positions them as the expert.'']"

definition TACTICS_angry_medium_high_mid :: "string list" where
  "TACTICS_angry_medium_high_mid =
    [''Irritation + partial engagement '' @ [CHR 0xE2, CHR 0x80, CHR 0x94] @ '' they feel unheard. Mirror their last key phrase as a question. Mirroring reduces defensiveness by 40% in under 60 seconds.'',
     ''Still irritated but present. Use the power of apology: take responsibility for something '' @ [CHR 0xE2, CHR 0x80, CHR 0x94] @ '' even small '' @ [CHR 0xE2, CHR 0x80, CHR 0x94] @ '' related to their frustration. Accountability deflates anger.'',
     ''Continued irritation-engagement mix. Ask: 'What's the most important thing I've missed about your position?' Positions them as expert, you as student.'']"

definition TACTICS_angry_high_mid_mid :: "string list" where
  "TACTICS_angry_high_mid_mid =
    [''Agitation + attention still present '' @ [CHR 0xE2, CHR 0x80, CHR 0x94] @ '' channel this energy. Ask a challenge question: 'What's the one thing that would change your mind?' Resistance hides high investment.'',
     ''Continued engagement under agitation. Name the strength behind their anger: 'The fact you feel this strongly shows how much you care about getting this right.'' @ [CHR 0x27],
     ''Sustained engaged-agitation. Give them a win: 'You're right about X '' @ [CHR 0xE2, CHR 0x80, CHR 0x94] @ '' completely right. Given that, how do we move forward?' Partial agreement creates momentum.'']"

definition TACTICS_sad_low_low_low :: "string list" where
  "TACTICS_sad_low_low_low =
    [''Withdrawal state '' @ [CHR 0xE2, CHR 0x80, CHR 0x94] @ '' low energy, downward gaze. Activate reciprocity through vulnerability: share a relevant personal struggle BEFORE asking anything.'',
     ''Still withdrawn. Ask for their story: 'What happened that brought you to this point?' Listen for 2 full minutes without interjecting.'',
     ''Prolonged withdrawal. Introduce possibility slowly: 'If things were just 10% better '' @ [CHR 0xE2, CHR 0x80, CHR 0x94] @ '' what would that look like?' Small future-pacing reopens possibility without pressure.'']"

definition TACTICS_sad_medium_low_low :: "string list" where
  "TACTICS_sad_medium_low_low =
    [''Mild sadness with partial attention. Ask for their story: 'What happened that brought you to this point?' People in sadness bond through narrative.'',
     ''Continued sad-partial engagement. Deepen empathy: 'What's the hardest part of all of this for you?' The hardest part is where the real need lives.'',
     ''Sustained ambivalent-sad state. Use the miracle question: 'If you woke up tomorrow and the problem was gone '' @ [CHR 0xE2, CHR 0x80, CHR 0x94] @ '' how would you know?' Bypasses resistance and activates motivation.'']"

definition TACTICS_sad_low_mid_low :: "string list" where
  "TACTICS_sad_low_mid_low =
    [''Subdued affect signaling low confidence. Use Late Night FM DJ voice: slow, warm, measured. Reflect their emotion before any content: 'This clearly matters to you deeply.'' @ [CHR 0x27],
     ''Still subdued. Introduce possibility: 'What would need to change for this to feel different?' Asking about change implies change is possible '' @ [CHR 0xE2, CHR 0x80, CHR 0x94] @ '' a powerful reframe.'',
     ''Prolonged subdued state. Ask about the best version of the situation: 'When has this worked well in the past?' Access to positive memory resources often shifts affect.'']"

definition TACTICS_sad_medium_mid_mid :: "string list" where
  "TACTICS_sad_medium_mid_mid =
    [''Sadness + moderate engagement '' @ [CHR 0xE2, CHR 0x80, CHR 0x94] @ '' ambivalence. Use contrast principle: paint the gap between where they are and where they could be. Emotion follows vision.'',
     ''Persistent sadness with partial engagement. Deepen empathy: 'What's the hardest part of all of this for you?' Then listen fully without adding content.'',
     ''Sustained ambivalent-sad state. Use the miracle question: 'If you woke up and the problem was solved '' @ [CHR 0xE2, CHR 0x80, CHR 0x94] @ '' how would you know?' Activates motivation directly.'']"

definition TACTICS_disgusted_low_mid_low :: "string list" where
  "TACTICS_disgusted_low_mid_low =
    [''Value mismatch '' @ [CHR 0xE2, CHR 0x80, CHR 0x94] @ '' micro-disgust + low attention. Pivot immediately: 'I sense that landed differently than intended '' @ [CHR 0xE2, CHR 0x80, CHR 0x94] @ '' what part concerns you most?'' @ [CHR 0x27],
     ''Value mismatch persisting. Don't defend the previous frame. Ask what matters most to them and rebuild your position from their anchor point.'',
     ''Persistent value misalignment. Use inversion: present the OPPOSITE position and ask them to critique it. They'll often argue themselves into your actual position.'']"

definition TACTICS_disgusted_medium_mid_mid :: "string list" where
  "TACTICS_disgusted_medium_mid_mid =
    [''Subtle rejection '' @ [CHR 0xE2, CHR 0x80, CHR 0x94] @ '' framing isn't resonating. Framing reboot: present the same idea through a completely different lens '' @ [CHR 0xE2, CHR 0x80, CHR 0x94] @ '' individual vs. team, process vs. results.'',
     ''Continued value friction. Use 'the third story': how would a neutral third party see this situation? Outside perspective breaks in-frame deadlocks.'',
     ''Sustained misalignment. Find ONE point of genuine agreement and anchor everything else to it. Agreement on any shared value creates a psychological bridge.'']"

definition TACTICS_engagement_drop :: "string list" where
  "TACTICS_engagement_drop =
    [''Engagement dropping fast. Pattern interrupt: ask their opinion directly, or call it out openly: 'I can see we've hit something '' @ [CHR 0xE2, CHR 0x80, CHR 0x94] @ '' what's on your mind?'' @ [CHR 0x27],
     ''Engagement still falling. Abandon your current agenda. Ask: 'What would make this conversation worth your time?' Let their answer restructure everything.'',
     ''Engagement collapse continuing. Radical transparency: 'I feel like I've lost you somewhere '' @ [CHR 0xE2, CHR 0x80, CHR 0x94] @ '' where did this stop working?' Meta-commentary often resets the conversation.'']"

definition TACTICS_stress_spike :: "string list" where
  "TACTICS_stress_spike =
    [''Stress cascading across all signals. Drop to one sentence, slow your breathing visibly, then give them a choice: 'What feels right to you?' Agency dissolves stress.'',
     ''Stress still elevated. Remove all demands: 'We don't have to solve this today '' @ [CHR 0xE2, CHR 0x80, CHR 0x94] @ '' what would feel manageable to discuss right now?'' @ [CHR 0x27],
     ''Sustained stress spike. Use the paradoxical injunction: 'Take as long as you need '' @ [CHR 0xE2, CHR 0x80, CHR 0x94] @ '' there's no rush at all.' Removing time pressure often accelerates resolution.'']"

definition TACTICS_inconsistency :: "string list" where
  "TACTICS_inconsistency =
    [''Mixed signals '' @ [CHR 0xE2, CHR 0x80, CHR 0x94] @ '' smiling but stress rising. Leakage event. Deploy: 'What aren't we talking about that we should be?' Name the meta-level directly.'',
     ''Behavioral inconsistency persisting. Ask: 'Your body seems to be saying something your words aren't '' @ [CHR 0xE2, CHR 0x80, CHR 0x94] @ '' what's the real concern here?'' @ [CHR 0x27],
     ''Continued signal contradiction. Try a soft confrontation: 'I notice you say X but I'm getting a different sense '' @ [CHR 0xE2, CHR 0x80, CHR 0x94] @ '' am I reading that wrong?'' @ [CHR 0x27]]"

definition TACTICS_attention_lost :: "string list" where
  "TACTICS_attention_lost =
    [''Attention has left '' @ [CHR 0xE2, CHR 0x80, CHR 0x94] @ '' gaze and posture confirm cognitive disengagement. Stop all content. Call their name once, ask: 'What's the most important thing you need from this conversation right now?' Hold 10 seconds of silence.'',
     ''Still disengaged. Full pattern interrupt: physically reposition, lower your voice to near-whisper, and say only: 'Let me start over.' Novelty and humility together reset attention.'',
     ''Prolonged disengagement. This conversation needs an exit and restart. Say: 'Let's pause '' @ [CHR 0xE2, CHR 0x80, CHR 0x94] @ '' when would be a better time to continue this?' Graceful exits preserve future access.'']"

definition TACTICS_items :: "(key \<times> entry) list" where
  "TACTICS_items =
    [(TK ''neutral'' ''low'' ''low'' ''low'', Variants TACTICS_neutral_low_low_low),
     (TK ''neutral'' ''low'' ''mid'' ''low'', Variants TACTICS_neutral_low_mid_low),
     (TK ''neutral'' ''low'' ''low'' ''mid'', Variants TACTICS_neutral_low_low_mid),
     (TK ''neutral'' ''low'' ''mid'' ''mid'', Variants TACTICS_neutral_low_mid_mid),
     (TK ''neutral'' ''high'' ''low'' ''high'', Variants TACTICS_neutral_high_low_high),
     (TK ''neutral'' ''high'' ''low'' ''mid'', Variants TACTICS_neutral_high_low_mid),
     (TK ''neutral'' ''medium'' ''low'' ''high'', Variants TACTICS_neutral_medium_low_high),
     (TK ''neutral'' ''medium'' ''low'' ''mid'', Variants TACTICS_neutral_medium_low_mid),
     (TK ''neutral'' ''medium'' ''mid'' ''mid'', Variants TACTICS_neutral_medium_mid_mid),
     (TK ''neutral'' ''high'' ''mid'' ''high'', Variants TACTICS_neutral_high_mid_high),
     (TK ''happy'' ''high'' ''low'' ''high'', Variants TACTICS_happy_high_low_high),
     (TK ''happy'' ''high'' ''low'' ''mid'', Variants TACTICS_happy_high_low_mid),
     (TK ''happy'' ''medium'' ''low'' ''high'', Variants TACTICS_happy_medium_low_high),
     (TK ''happy'' ''high'' ''mid'' ''high'', Variants TACTICS_happy_high_mid_high),
     (TK ''surprised'' ''high'' ''low'' ''high'', Variants TACTICS_surprised_high_low_high),
     (TK ''surprised'' ''high'' ''mid'' ''mid'', Variants TACTICS_surprised_high_mid_mid),
     (TK ''surprised'' ''medium'' ''mid'' ''mid'', Variants TACTICS_surprised_medium_mid_mid),
     (TK ''fearful'' ''low'' ''high'' ''low'', Variants TACTICS_fearful_low_high_low),
     (TK ''fearful'' ''medium'' ''high'' ''low'', Variants TACTICS_fearful_medium_high_low),
     (TK ''fearful'' ''low'' ''high'' ''mid'', Variants TACTICS_fearful_low_high_mid),
     (TK ''fearful'' ''medium'' ''mid'' ''mid'', Variants TACTICS_fearful_medium_mid_mid),
     (TK ''angry'' ''medium'' ''high'' ''low'', Variants TACTICS_angry_medium_high_low),
     (TK ''angry'' ''low'' ''high'' ''low'', Variants TACTICS_angry_low_high_low),
     (TK ''angry'' ''medium'' ''high'' ''mid'', Variants TACTICS_angry_medium_high_mid),
     (TK ''angry'' ''high'' ''mid'' ''mid'', Variants TACTICS_angry_high_mid_mid),
     (TK ''sad'' ''low'' ''low'' ''low'', Variants TACTICS_sad_low_low_low),
     (TK ''sad'' ''medium'' ''low'' ''low'', Variants TACTICS_sad_medium_low_low),
     (TK ''sad'' ''low'' ''mid'' ''low'', Variants TACTICS_sad_low_mid_low),
     (TK ''sad'' ''medium'' ''mid'' ''mid'', Variants TACTICS_sad_medium_mid_mid),
     (TK ''disgusted'' ''low'' ''mid'' ''low'', Variants TACTICS_disgusted_low_mid_low),
     (TK ''disgusted'' ''medium'' ''mid'' ''mid'', Variants TACTICS_disgusted_medium_mid_mid),
     (Crisis engagement_drop, Variants TACTICS_engagement_drop),
     (Crisis stress_spike, Variants TACTICS_stress_spike),
     (Crisis inconsistency, Variants TACTICS_inconsistency),
     (Crisis attention_lost, Variants TACTICS_attention_lost)]"

definition default_pool :: "string list" where
  "default_pool =
    [''Stable baseline '' @ [CHR 0xE2, CHR 0x80, CHR 0x94] @ '' all signals calm. Deploy strategic silence: stop talking for 5 seconds and observe micro-reactions. Silence reveals resistance that speech hides.'',
     ''Neutral baseline. Use the 'summary label': restate their key position verbatim and ask '' @ [CHR 0x27, CHR 0xE2, CHR 0x80, CHR 0xA6] @ ''is that right?' It triggers the 'That's right' trust response.'',
     ''Stable environment. Plant a calibrated question: 'What matters most to you in making this decision?' Then listen without interrupting for 90 seconds.'',
     ''Baseline stable. Apply Cialdini's scarcity principle: introduce a genuine constraint '' @ [CHR 0xE2, CHR 0x80, CHR 0x94] @ '' time or availability. Scarcity elevates perceived value even in calm states.'',
     ''Consistent stable signals. Use progressive disclosure '' @ [CHR 0xE2, CHR 0x80, CHR 0x94] @ '' share your second most compelling point now, saving the strongest for when engagement peaks.'',
     ''Clean baseline. Use behavioral mirroring: match their posture, gesture frequency, and breathing pace. Synchrony increases trust by 32% and compliance by 26%.'',
     ''Signals stable. Deploy an I-statement: 'I'm trying to understand your perspective fully before forming my own.' Epistemic humility paradoxically builds authority.'',
     ''Sustained neutral. Ask a genuine curiosity question '' @ [CHR 0xE2, CHR 0x80, CHR 0x94] @ '' something you actually don't know the answer to about their situation. Authentic curiosity is one of the rarest and most disarming interpersonal signals.'']"

definition TACTICS :: "key \<rightharpoonup> entry" where
  "TACTICS = map_of TACTICS_items"

definition flow_state_message :: string where
  "flow_state_message =
     ''You're in the 'flow state' window '' @ [CHR 0xE2, CHR 0x80, CHR 0x94] @ '' emotional safety and cognitive engagement are both high. This is your highest-leverage moment. Make your most important ask or deliver your key message NOW.''"

subsection \<open>Rotation state and lookup (\<^verbatim>\<open>_get_tactic\<close>, reasoning.py)\<close>

text \<open>
  The module-level state of reasoning.py: \<^verbatim>\<open>_last_key[0]\<close>, \<^verbatim>\<open>_key_hit_counts\<close>
  and \<^verbatim>\<open>_default_idx[0]\<close>, as they are when the module has just been loaded.
\<close>

record rotation =
  last_key :: "key option"
  key_hit_counts :: "key \<rightharpoonup> nat"
  default_idx :: nat

definition rotation_init :: rotation where
  "rotation_init = \<lparr>last_key = None, key_hit_counts = Map.empty, default_idx = 0\<rparr>"

definition ROTATION_EVERY :: nat where
  "ROTATION_EVERY = 4"

definition get_tactic :: "key \<Rightarrow> rotation \<Rightarrow> string option \<times> rotation" where
  \<comment> \<open>The result \<open>None\<close> is Python's \<^verbatim>\<open>None\<close>. Every list of the catalogue has three
      texts, so \<^verbatim>\<open>len(entry)\<close> is not zero and the index is in range.\<close>
  "get_tactic key st =
     (let st = (if last_key st \<noteq> Some key
                then (case last_key st of
                        None \<Rightarrow> st
                      | Some old \<Rightarrow> st\<lparr>key_hit_counts := (key_hit_counts st)(old := None)\<rparr>)
                     \<lparr>last_key := Some key\<rparr>
                else st);
          hits = dict_get (key_hit_counts st) key 0;
          st = st\<lparr>key_hit_counts := (key_hit_counts st)(key \<mapsto> hits + 1)\<rparr>
      in case TACTICS key of
           None \<Rightarrow> (None, st)
         | Some (Single s) \<Rightarrow> (Some s, st)
         | Some (Variants entry) \<Rightarrow>
             (let idx = (hits div ROTATION_EVERY) mod length entry
              in (Some (entry ! idx), st)))"

fun run_lookups :: "key list \<Rightarrow> rotation \<Rightarrow> string option list \<times> rotation" where
  \<comment> \<open>Consecutive calls of \<^verbatim>\<open>_get_tactic\<close>, collecting what each returns.\<close>
  "run_lookups [] st = ([], st)"
| "run_lookups (k # ks) st =
     (case get_tactic k st of (r, st') \<Rightarrow>
        (case run_lookups ks st' of (rs, st'') \<Rightarrow> (r # rs, st'')))"

subsection \<open>The selection cascade (\<^verbatim>\<open>_psychology_fallback\<close>, reasoning.py)\<close>

definition zone :: "real \<Rightarrow> real \<Rightarrow> real \<Rightarrow> string" where
  \<comment> \<open>\<^verbatim>\<open>_zone(val, low=35, high=65)\<close>\<close>
  "zone val low high = (if val < low then ''low'' else if val > high then ''high'' else ''mid'')"

fun starts_with :: "string \<Rightarrow> string \<Rightarrow> bool" where
  "starts_with [] a = True"
| "starts_with (k # ks) [] = False"
| "starts_with (k # ks) (c # cs) = (k = c \<and> starts_with ks cs)"

fun contains :: "string \<Rightarrow> string \<Rightarrow> bool" where
  \<comment> \<open>\<^verbatim>\<open>kw in a\<close> on strings\<close>
  "contains kw [] = (kw = [])"
| "contains kw (c # cs) = (starts_with kw (c # cs) \<or> contains kw cs)"

definition lower_char :: "char \<Rightarrow> char" where
  "lower_char c =
     (case map_of (zip ''ABCDEFGHIJKLMNOPQRSTUVWXYZ'' ''abcdefghijklmnopqrstuvwxyz'') c of
        None \<Rightarrow> c
      | Some l \<Rightarrow> l)"

definition lower :: "string \<Rightarrow> string" where
  \<comment> \<open>\<^verbatim>\<open>a.lower()\<close> on the ASCII letters; the only needle searched in a lowered string is
      \<^verbatim>\<open>"stress"\<close>, and no character outside ASCII lowers to one of its letters.\<close>
  "lower a = map lower_char a"

definition truthy :: "string option \<Rightarrow> bool" where
  \<comment> \<open>\<^verbatim>\<open>if result:\<close> for a result that is \<^verbatim>\<open>None\<close> or a string\<close>
  "truthy result = (case result of None \<Rightarrow> False | Some s \<Rightarrow> s \<noteq> [])"

text \<open>
  The function body in the order of its numbered comments. A section yields \<open>Some\<close> of
  what the function returns there, or \<open>None\<close> when control falls through to the next.
  The snapshot and the history entries are those built by \<^verbatim>\<open>analyze\<close>; they carry every
  key, so that each \<^verbatim>\<open>.get(key, default)\<close> of the source reads the field.
\<close>

definition alert_section :: "string list \<Rightarrow> rotation \<Rightarrow> (string option \<times> rotation) option" where
  \<comment> \<open>1. Alert-based tactics (highest priority)\<close>
  "alert_section alerts st =
     (if alerts \<noteq> [] then
        if list_ex (\<lambda>a. list_ex (\<lambda>kw. contains kw a)
                       [''Attention'', ''attention'', ''disengaged'', ''Disengaged'']) alerts
        then Some (get_tactic (Crisis attention_lost) st)
        else if list_ex (\<lambda>a. contains ''Engagement dropping'' a \<or> contains ''Very low engagement'' a) alerts
        then Some (get_tactic (Crisis engagement_drop) st)
        else if list_ex (\<lambda>a. contains ''Stress'' a \<or> contains ''stress'' (lower a)) alerts
        then Some (get_tactic (Crisis stress_spike) st)
        else if list_ex (\<lambda>a. contains ''Inconsistent'' a) alerts
        then Some (get_tactic (Crisis inconsistency) st)
        else None
      else None)"

definition trend_section :: "state \<Rightarrow> state list \<Rightarrow> rotation \<Rightarrow> (string option \<times> rotation) option" where
  \<comment> \<open>2. Cross-state trend detection; \<^verbatim>\<open>history[-3]\<close> exists as the length is at least 3\<close>
  "trend_section current history st =
     (if length history \<ge> 3 then
        let eng_trend = engagement_score current - engagement_score (history ! (length history - 3));
            stress_trend = stress_score current - stress_score (history ! (length history - 3))
        in if eng_trend < - 15 then Some (get_tactic (Crisis engagement_drop) st)
           else if stress_trend > 15 then Some (get_tactic (Crisis stress_spike) st)
           else
             let emotions = map emotion (drop (length history - 3) history) @ [emotion current]
             in if length (remdups emotions) \<ge> 3
                then Some (get_tactic (Crisis inconsistency) st)
                else None
      else None)"

fun fuzzy_loop :: "key list \<Rightarrow> rotation \<Rightarrow> string option \<times> rotation" where
  \<comment> \<open>The \<^verbatim>\<open>for fuzzy_key in [...]\<close> loop: the first truthy result, or \<open>None\<close> when the
      list is exhausted; every lookup on the way updates the rotation state.\<close>
  "fuzzy_loop [] st = (None, st)"
| "fuzzy_loop (fuzzy_key # rest) st =
     (case get_tactic fuzzy_key st of (result, st') \<Rightarrow>
        if truthy result then (result, st') else fuzzy_loop rest st')"

definition state_section :: "state \<Rightarrow> rotation \<Rightarrow> string option \<times> rotation" where
  \<comment> \<open>3. Hard overrides, 4. exact then fuzzy lookup, 5. optimal state, 6. rotating default\<close>
  "state_section current st =
     (let emotion = emotion current;
          attention = attention current;
          stress = stress_score current;
          engagement = engagement_score current;
          s_zone = zone stress 35 65;
          e_zone = zone engagement 35 65
      in
      if attention = ''low'' then
        (case get_tactic (TK emotion ''low'' s_zone e_zone) st of (result, st) \<Rightarrow>
           if truthy result then (result, st)
           else get_tactic (Crisis attention_lost) st)
      else if stress > 65 then
        (case get_tactic (TK emotion attention ''high'' e_zone) st of (result, st) \<Rightarrow>
           if truthy result then (result, st)
           else get_tactic (Crisis stress_spike) st)
      else if engagement < 30 then get_tactic (Crisis engagement_drop) st
      else
        (case get_tactic (TK emotion attention s_zone e_zone) st of (result, st) \<Rightarrow>
           if truthy result then (result, st)
           else
             (case fuzzy_loop
                     [TK emotion attention ''mid'' e_zone,
                      TK emotion attention s_zone ''mid'',
                      TK emotion attention ''mid'' ''mid'',
                      TK emotion ''medium'' s_zone e_zone,
                      TK emotion ''medium'' ''mid'' e_zone,
                      TK emotion ''medium'' ''mid'' ''mid''] st of (result, st) \<Rightarrow>
                if truthy result then (result, st)
                else if engagement > 70 \<and> stress < 35 then (Some flow_state_message, st)
                else
                  let idx = default_idx st mod length default_pool
                  in (Some (default_pool ! idx), st\<lparr>default_idx := default_idx st + 1\<rparr>))))"

definition psychology_fallback ::
  "state \<Rightarrow> state list \<Rightarrow> string list \<Rightarrow> rotation \<Rightarrow> string option \<times> rotation" where
  "psychology_fallback current history alerts st =
     (case alert_section alerts st of
        Some r \<Rightarrow> r
      | None \<Rightarrow>
          (case trend_section current history st of
             Some r \<Rightarrow> r
           | None \<Rightarrow> state_section current st))"

fun run_fallback ::
  "nat \<Rightarrow> state \<Rightarrow> state list \<Rightarrow> string list \<Rightarrow> rotation \<Rightarrow> string option list \<times> rotation" where
  \<comment> \<open>The same call of \<^verbatim>\<open>_psychology_fallback\<close> made \<open>n\<close> times in a row.\<close>
  "run_fallback 0 current history alerts st = ([], st)"
| "run_fallback (Suc n) current history alerts st =
     (case psychology_fallback current history alerts st of (r, st') \<Rightarrow>
        (case run_fallback n current history alerts st' of (rs, st'') \<Rightarrow> (r # rs, st'')))"

subsection \<open>One request (\<^verbatim>\<open>analyze\<close>, main.py, from the alert detection on)\<close>

definition get_agent_advice ::
  "state \<Rightarrow> state list \<Rightarrow> string list \<Rightarrow> rotation \<Rightarrow> string option \<times> rotation" where
  \<comment> \<open>With no API key configured \<^verbatim>\<open>LLM_PROVIDER\<close> is \<^verbatim>\<open>"fallback"\<close>, and the advice is
      that of the rule engine.\<close>
  "get_agent_advice current history alerts st = psychology_fallback current history alerts st"

definition analyze ::
  "state \<Rightarrow> state list \<times> rotation \<Rightarrow> (string option \<times> string list) \<times> (state list \<times> rotation)" where
  \<comment> \<open>Takes \<^verbatim>\<open>current_state\<close> and the module state; returns the advice and the alerts of
      the response, and the module state afterwards. \<^verbatim>\<open>state_memory[:-1]\<close> is \<open>butlast\<close>.\<close>
  "analyze current_state ms =
     (case ms of (state_memory, st) \<Rightarrow>
        let alerts = detect_alerts current_state state_memory;
            state_memory = append_memory state_memory current_state
        in case get_agent_advice current_state (butlast state_memory) alerts st of
             (advice, st) \<Rightarrow> ((advice, alerts), (state_memory, st)))"

subsection \<open>Notions used in the statements\<close>

definition hits_of :: "rotation \<Rightarrow> key \<Rightarrow> nat" where
  \<comment> \<open>the hit count \<open>h\<close> that a lookup of \<open>k\<close> reads: \<^verbatim>\<open>_key_hit_counts.get(k, 0)\<close>\<close>
  "hits_of st k = dict_get (key_hit_counts st) k 0"

definition single_counter :: "rotation \<Rightarrow> bool" where
  \<comment> \<open>no key other than the last one looked up has a counter\<close>
  "single_counter st = (dom (key_hit_counts st) \<subseteq> set_option (last_key st))"

definition rotated :: "key \<Rightarrow> nat \<Rightarrow> string option" where
  \<comment> \<open>what the catalogue gives for a key at hit count \<open>h\<close>\<close>
  "rotated k h =
     (case TACTICS k of
        None \<Rightarrow> None
      | Some (Single s) \<Rightarrow> Some s
      | Some (Variants entry) \<Rightarrow> Some (entry ! ((h div 4) mod length entry)))"

definition good_entry :: "entry \<Rightarrow> bool" where
  \<comment> \<open>a catalogue entry is a non-empty text or three non-empty texts\<close>
  "good_entry e =
     (case e of Single s \<Rightarrow> s \<noteq> [] | Variants vs \<Rightarrow> length vs = 3 \<and> list_all (\<lambda>v. v \<noteq> []) vs)"

definition crisis_texts :: "crisis \<Rightarrow> string list" where
  "crisis_texts c =
     (case c of engagement_drop \<Rightarrow> TACTICS_engagement_drop | stress_spike \<Rightarrow> TACTICS_stress_spike
      | inconsistency \<Rightarrow> TACTICS_inconsistency | attention_lost \<Rightarrow> TACTICS_attention_lost)"

definition mentions_attention :: "string \<Rightarrow> bool" where
  "mentions_attention a =
     list_ex (\<lambda>kw. contains kw a) [''Attention'', ''attention'', ''disengaged'', ''Disengaged'']"

definition mentions_engagement :: "string \<Rightarrow> bool" where
  "mentions_engagement a = (contains ''Engagement dropping'' a \<or> contains ''Very low engagement'' a)"

definition mentions_stress :: "string \<Rightarrow> bool" where
  "mentions_stress a = (contains ''Stress'' a \<or> contains ''stress'' (lower a))"

definition alert_key :: "string list \<Rightarrow> crisis option" where
  \<comment> \<open>the crisis key section 1 dispatches to, if any\<close>
  "alert_key alerts =
     (if alerts = [] then None
      else if list_ex mentions_attention alerts then Some attention_lost
      else if list_ex mentions_engagement alerts then Some engagement_drop
      else if list_ex mentions_stress alerts then Some stress_spike
      else if list_ex (contains ''Inconsistent'') alerts then Some inconsistency
      else None)"

definition trend_key :: "state \<Rightarrow> state list \<Rightarrow> crisis option" where
  \<comment> \<open>the crisis key section 2 dispatches to, if any\<close>
  "trend_key current history =
     (if length history \<ge> 3 then
        if engagement_score current - engagement_score (history ! (length history - 3)) < - 15
        then Some engagement_drop
        else if stress_score current - stress_score (history ! (length history - 3)) > 15
        then Some stress_spike
        else if length (remdups (map emotion (drop (length history - 3) history) @ [emotion current])) \<ge> 3
        then Some inconsistency
        else None
      else None)"



definition miss_path :: "state \<Rightarrow> crisis \<Rightarrow> bool" where
  \<comment> \<open>the snapshot takes a hard override of section 3 whose catalogue lookup misses, so
      that the call ends in the lookup of the crisis key \<open>c\<close>\<close>
  "miss_path current c =
     (attention current = ''low''
        \<and> TACTICS (TK (emotion current) ''low'' (zone (stress_score current) 35 65)
                      (zone (engagement_score current) 35 65)) = None
        \<and> c = attention_lost
      \<or> attention current \<noteq> ''low'' \<and> stress_score current > 65
        \<and> TACTICS (TK (emotion current) (attention current) ''high''
                      (zone (engagement_score current) 35 65)) = None
        \<and> c = stress_spike)"

definition full_memory :: "state list" where
  \<comment> \<open>a store at its capacity of five snapshots\<close>
  "full_memory =
     [snapshot ''neutral'' ''high'' 81 11, snapshot ''neutral'' ''high'' 82 12,
      snapshot ''neutral'' ''high'' 83 13, snapshot ''neutral'' ''high'' 84 14,
      snapshot ''neutral'' ''high'' 85 15]"

definition advice_history :: "state list \<Rightarrow> state \<Rightarrow> state list" where
  \<comment> \<open>the history \<^verbatim>\<open>analyze\<close> passes on for the advice: \<^verbatim>\<open>state_memory[:-1]\<close>,
      evaluated after the append and the eviction\<close>
  "advice_history state_memory current_state = butlast (append_memory state_memory current_state)"


subsection \<open>Properties of the score derivation\<close>

lemma attention_map_weight: "dict_get attention_map a 0 = spec_attention_weight a"
  by (simp add: dict_get_def attention_map_def spec_attention_weight_def)

lemma emotion_eng_map_weight: "dict_get emotion_eng_map e 0 = spec_engagement_emotion e"
  by (simp add: dict_get_def emotion_eng_map_def spec_engagement_emotion_def)

lemma posture_map_weight: "dict_get posture_map p 0 = spec_engagement_posture p"
  by (simp add: dict_get_def posture_map_def spec_engagement_posture_def)

lemma speech_map_weight: "dict_get speech_map s 0 = spec_engagement_speech s"
  by (simp add: dict_get_def speech_map_def spec_engagement_speech_def)

lemma emotion_stress_map_weight: "dict_get emotion_stress_map e 0 = spec_stress_emotion e"
  by (simp add: dict_get_def emotion_stress_map_def spec_stress_emotion_def)

lemma tone_stress_map_weight: "dict_get tone_stress_map t 0 = spec_stress_tone t"
  by (simp add: dict_get_def tone_stress_map_def spec_stress_tone_def)

lemma pause_stress_map_weight: "dict_get pause_stress_map p 0 = spec_stress_pauses p"
  by (simp add: dict_get_def pause_stress_map_def spec_stress_pauses_def)

lemma movement_stress_map_weight: "dict_get movement_stress_map m 0 = spec_stress_movement m"
  by (simp add: dict_get_def movement_stress_map_def spec_stress_movement_def)

lemma conf_posture_map_weight: "dict_get conf_posture_map p 0 = spec_confidence_posture p"
  by (simp add: dict_get_def conf_posture_map_def spec_confidence_posture_def)

lemma conf_emotion_map_weight: "dict_get conf_emotion_map e 0 = spec_confidence_emotion e"
  by (simp add: dict_get_def conf_emotion_map_def spec_confidence_emotion_def)

lemma conf_speech_map_weight: "dict_get conf_speech_map s 0 = spec_confidence_speech s"
  by (simp add: dict_get_def conf_speech_map_def spec_confidence_speech_def)

lemmas spec_score_defs =
  spec_engagement_def spec_stress_def spec_confidence_def spec_clamp_def
  spec_attention_weight_def spec_engagement_emotion_def spec_engagement_posture_def
  spec_engagement_speech_def spec_stress_emotion_def spec_stress_tone_def spec_stress_pauses_def
  spec_stress_movement_def spec_confidence_posture_def spec_confidence_emotion_def
  spec_confidence_speech_def

lemmas score_weights =
  attention_map_weight emotion_eng_map_weight posture_map_weight speech_map_weight
  emotion_stress_map_weight tone_stress_map_weight pause_stress_map_weight
  movement_stress_map_weight conf_posture_map_weight conf_emotion_map_weight
  conf_speech_map_weight

lemma clamp_spec_clamp: "max 0 (min 100 x) = spec_clamp x"
  by (simp add: spec_clamp_def max_def min_def)

lemma spec_clamp_range: "0 \<le> spec_clamp x \<and> spec_clamp x \<le> 100"
  by (simp add: spec_clamp_def)

lemma compute_scores_spec:
  "compute_scores v a =
     (spec_engagement (dict_get v ''attention'' ''medium'') (dict_get v ''emotion'' ''neutral'')
        (dict_get v ''posture'' ''neutral'') (audio_get a ''speech_speed'' ''normal''),
      spec_stress (dict_get v ''emotion'' ''neutral'') (audio_get a ''tone_indicator'' ''neutral'')
        (audio_get a ''pauses'' ''minimal'') (dict_get v ''movement'' ''moderate''),
      spec_confidence (dict_get v ''attention'' ''medium'') (dict_get v ''posture'' ''neutral'')
        (dict_get v ''emotion'' ''neutral'') (audio_get a ''speech_speed'' ''normal''))"
  by (simp add: compute_scores_def Let_def score_weights clamp_spec_clamp
      spec_engagement_def spec_stress_def spec_confidence_def add.assoc)

text \<open>
  Claim C2. For every content of the two signal dictionaries, recognised or not,
  \<^const>\<open>compute_scores\<close> returns three scores between 0 and 100; each is the documented
  baseline plus the documented weights (a value outside a table adds 0), clamped as the
  last step. The result is a function of the two arguments alone.
\<close>

theorem compute_scores_in_range_and_as_documented:
  "(case compute_scores v a of (engagement, stress, confidence) \<Rightarrow>
      0 \<le> engagement \<and> engagement \<le> 100 \<and> 0 \<le> stress \<and> stress \<le> 100
      \<and> 0 \<le> confidence \<and> confidence \<le> 100
      \<and> engagement =
          spec_engagement (dict_get v ''attention'' ''medium'') (dict_get v ''emotion'' ''neutral'')
            (dict_get v ''posture'' ''neutral'') (audio_get a ''speech_speed'' ''normal'')
      \<and> stress =
          spec_stress (dict_get v ''emotion'' ''neutral'') (audio_get a ''tone_indicator'' ''neutral'')
            (audio_get a ''pauses'' ''minimal'') (dict_get v ''movement'' ''moderate'')
      \<and> confidence =
          spec_confidence (dict_get v ''attention'' ''medium'') (dict_get v ''posture'' ''neutral'')
            (dict_get v ''emotion'' ''neutral'') (audio_get a ''speech_speed'' ''normal''))
   \<and> spec_attention_weight ''unrecognised'' = 0"
  by (simp add: compute_scores_spec spec_engagement_def spec_stress_def spec_confidence_def
      spec_clamp_range spec_attention_weight_def)

theorem compute_scores_example:
  "compute_scores
     [''emotion'' \<mapsto> ''fearful'', ''attention'' \<mapsto> ''low'', ''posture'' \<mapsto> ''slouched'',
      ''movement'' \<mapsto> ''restless'']
     (Some [''speech_speed'' \<mapsto> ''silent'', ''pauses'' \<mapsto> ''frequent'',
            ''tone_indicator'' \<mapsto> ''stressed''])
   = (0, 100, 0)"
  using compute_scores_in_range_and_as_documented
    [of "[''emotion'' \<mapsto> ''fearful'', ''attention'' \<mapsto> ''low'', ''posture'' \<mapsto> ''slouched'',
          ''movement'' \<mapsto> ''restless'']"
        "Some [''speech_speed'' \<mapsto> ''silent'', ''pauses'' \<mapsto> ''frequent'',
               ''tone_indicator'' \<mapsto> ''stressed'']"]
  by (simp add: dict_get_def audio_get_def spec_score_defs split: prod.splits)

subsection \<open>Properties of alert detection and of the rolling memory\<close>






lemma append_memory_snoc:
  "append_memory (drop (length xs - 5) xs) x = drop (length (xs @ [x]) - 5) (xs @ [x])"
proof (cases "length xs < 5")
  case True
  then show ?thesis by (simp add: append_memory_def)
next
  case False
  define k where "k = length xs - 5"
  from False have len: "length xs = k + 5" by (simp add: k_def)
  have ne: "drop k xs \<noteq> []" using len by simp
  have "append_memory (drop k xs) x = tl (drop k xs @ [x])"
    using len by (simp add: append_memory_def)
  also have "\<dots> = tl (drop k xs) @ [x]" using ne by simp
  also have "\<dots> = drop (Suc k) xs @ [x]" by (simp add: drop_Suc tl_drop)
  also have "\<dots> = drop (Suc k) (xs @ [x])" using len by simp
  finally have main: "append_memory (drop k xs) x = drop (Suc k) (xs @ [x])" .
  have sk: "length (xs @ [x]) - 5 = Suc k" using False by (simp add: k_def)
  show ?thesis unfolding sk [unfolded k_def] using main [unfolded k_def] .
qed

lemma foldl_append_memory: "foldl append_memory [] xs = drop (length xs - 5) xs"
proof (induction xs rule: rev_induct)
  case Nil
  show ?case by simp
next
  case (snoc x xs)
  then show ?case using append_memory_snoc [of xs x] by simp
qed

text \<open>
  Claim C4. Starting from the empty store, after any sequence of appends the store holds
  at most 5 snapshots, namely the last five appended, oldest first; an append adds at the
  end and drops the entry at index 0 when the length would exceed 5. After seven appends
  the store holds the third to the seventh snapshot.
\<close>

theorem state_memory_bounded:
  "length (foldl append_memory [] xs) \<le> 5
   \<and> foldl append_memory [] xs = drop (length xs - 5) xs
   \<and> foldl append_memory [] [s1, s2, s3, s4, s5, s6, s7] = [s3, s4, s5, s6, s7]
   \<and> append_memory m s = (if length (m @ [s]) > 5 then tl (m @ [s]) else m @ [s])"
  by (simp add: foldl_append_memory) (simp add: append_memory_def)

theorem state_memory_bounded_example:
  "foldl append_memory [] [1, 2, 3, 4, 5, 6, 7 :: nat] = [3, 4, 5, 6, 7]
   \<and> length (foldl append_memory [] [1, 2, 3, 4, 5, 6, 7, 8, 9 :: nat]) = 5"
  using state_memory_bounded [of "[1, 2, 3, 4, 5, 6, 7 :: nat]" 1 2 3 4 5 6 7 "[]" 0]
    state_memory_bounded [of "[1, 2, 3, 4, 5, 6, 7, 8, 9 :: nat]" 1 2 3 4 5 6 7 "[]" 0]
  by (simp add: append_memory_def)
subsection \<open>Properties of the catalogue and of the rotation lookup\<close>

lemma get_tactic_fst: "fst (get_tactic k st) = rotated k (hits_of st k)"
  by (auto simp: get_tactic_def rotated_def hits_of_def Let_def dict_get_def ROTATION_EVERY_def
      split: option.splits entry.splits)

lemma get_tactic_last_key: "last_key (snd (get_tactic k st)) = Some k"
  by (auto simp: get_tactic_def Let_def split: option.splits entry.splits)

lemma get_tactic_default_idx: "default_idx (snd (get_tactic k st)) = default_idx st"
  by (auto simp: get_tactic_def Let_def split: option.splits entry.splits)

lemma get_tactic_counts:
  "key_hit_counts (snd (get_tactic k st)) =
     (case last_key st of
        None \<Rightarrow> key_hit_counts st
      | Some old \<Rightarrow> if old = k then key_hit_counts st else (key_hit_counts st)(old := None))
     (k \<mapsto> hits_of st k + 1)"
  by (auto simp: get_tactic_def Let_def hits_of_def dict_get_def split: option.splits entry.splits)

lemma get_tactic_hits: "key_hit_counts (snd (get_tactic k st)) k = Some (hits_of st k + 1)"
  by (simp add: get_tactic_counts)

lemma get_tactic_hits_of: "hits_of (snd (get_tactic k st)) k = hits_of st k + 1"
  by (simp add: hits_of_def [of "snd (get_tactic k st)"] get_tactic_hits dict_get_def)

lemma get_tactic_pop:
  "last_key st = Some old \<Longrightarrow> old \<noteq> k \<Longrightarrow> key_hit_counts (snd (get_tactic k st)) old = None"
  by (simp add: get_tactic_counts)

lemma get_tactic_dom:
  "single_counter st \<Longrightarrow> dom (key_hit_counts (snd (get_tactic k st))) = {k}"
  by (auto simp: get_tactic_counts single_counter_def split: option.splits if_splits)

lemma get_tactic_single_counter: "single_counter st \<Longrightarrow> single_counter (snd (get_tactic k st))"
  by (simp add: single_counter_def [of "snd (get_tactic k st)"] get_tactic_dom get_tactic_last_key)

lemma get_tactic_switch:
  assumes "single_counter st" "last_key st = Some old" "old \<noteq> k"
  shows "key_hit_counts (snd (get_tactic k st)) = [k \<mapsto> 1]"
proof -
  from assms have "key_hit_counts st x = None" if "x \<noteq> old" for x
    using that by (auto simp: single_counter_def)
  with assms show ?thesis
    by (auto simp: get_tactic_counts hits_of_def dict_get_def fun_eq_iff)
qed

lemma run_lookups_replicate:
  "fst (run_lookups (replicate n k) st) = map (\<lambda>i. rotated k (hits_of st k + i)) [0..<n]"
proof (induction n arbitrary: st)
  case 0
  show ?case by simp
next
  case (Suc n)
  have "fst (run_lookups (replicate (Suc n) k) st)
        = fst (get_tactic k st) # fst (run_lookups (replicate n k) (snd (get_tactic k st)))"
    by (simp add: split_beta)
  also have "\<dots> = rotated k (hits_of st k) # map (\<lambda>i. rotated k (hits_of st k + Suc i)) [0..<n]"
    by (simp add: Suc.IH get_tactic_fst get_tactic_hits_of)
  also have "\<dots> = map (\<lambda>i. rotated k (hits_of st k + i)) [0..<Suc n]"
    by (simp only: map_upt_Suc) simp
  finally show ?case .
qed

lemma upt_12: "[0..<12] = [0, 1, 2, 3, 4, 5, 6, 7, 8, 9, 10, 11]"
  by code_simp

lemma run_lookups_snd_last_key:
  "ks \<noteq> [] \<Longrightarrow> last_key (snd (run_lookups ks st)) = Some (last ks)"
proof (induction ks arbitrary: st)
  case Nil
  then show ?case by simp
next
  case (Cons k ks)
  show ?case
  proof (cases "ks = []")
    case True
    then show ?thesis by (simp add: split_beta get_tactic_last_key)
  next
    case False
    with Cons.IH [of "snd (get_tactic k st)"] show ?thesis by (simp add: split_beta)
  qed
qed

lemma run_lookups_single_counter:
  "single_counter st \<Longrightarrow> single_counter (snd (run_lookups ks st))"
  by (induction ks arbitrary: st) (simp_all add: split_beta get_tactic_single_counter)

lemma run_lookups_dom:
  "single_counter st \<Longrightarrow> ks \<noteq> [] \<Longrightarrow> dom (key_hit_counts (snd (run_lookups ks st))) = {last ks}"
proof (induction ks arbitrary: st)
  case Nil
  then show ?case by simp
next
  case (Cons k ks)
  show ?case
  proof (cases "ks = []")
    case True
    with Cons.prems show ?thesis by (simp add: split_beta get_tactic_dom)
  next
    case False
    with Cons.IH [of "snd (get_tactic k st)"] Cons.prems show ?thesis
      by (simp add: split_beta get_tactic_single_counter)
  qed
qed

lemma single_counter_init: "single_counter rotation_init"
  by (simp add: single_counter_def rotation_init_def)

lemmas TACTICS_texts =
  TACTICS_neutral_low_low_low_def TACTICS_neutral_low_mid_low_def
  TACTICS_neutral_low_low_mid_def TACTICS_neutral_low_mid_mid_def
  TACTICS_neutral_high_low_high_def TACTICS_neutral_high_low_mid_def
  TACTICS_neutral_medium_low_high_def TACTICS_neutral_medium_low_mid_def
  TACTICS_neutral_medium_mid_mid_def TACTICS_neutral_high_mid_high_def
  TACTICS_happy_high_low_high_def TACTICS_happy_high_low_mid_def
  TACTICS_happy_medium_low_high_def TACTICS_happy_high_mid_high_def
  TACTICS_surprised_high_low_high_def TACTICS_surprised_high_mid_mid_def
  TACTICS_surprised_medium_mid_mid_def TACTICS_fearful_low_high_low_def
  TACTICS_fearful_medium_high_low_def TACTICS_fearful_low_high_mid_def
  TACTICS_fearful_medium_mid_mid_def TACTICS_angry_medium_high_low_def
  TACTICS_angry_low_high_low_def TACTICS_angry_medium_high_mid_def
  TACTICS_angry_high_mid_mid_def TACTICS_sad_low_low_low_def TACTICS_sad_medium_low_low_def
  TACTICS_sad_low_mid_low_def TACTICS_sad_medium_mid_mid_def TACTICS_disgusted_low_mid_low_def
  TACTICS_disgusted_medium_mid_mid_def TACTICS_engagement_drop_def TACTICS_stress_spike_def
  TACTICS_inconsistency_def TACTICS_attention_lost_def

lemma TACTICS_items_good: "list_all (\<lambda>(k, e). good_entry e) TACTICS_items"
  unfolding TACTICS_items_def good_entry_def by (simp add: TACTICS_texts)

lemma TACTICS_good: "TACTICS k = Some e \<Longrightarrow> good_entry e"
  using TACTICS_items_good by (auto simp: TACTICS_def list_all_iff dest: map_of_SomeD)

lemma TACTICS_crisis: "TACTICS (Crisis c) = Some (Variants (crisis_texts c))"
  by (cases c) (simp_all add: TACTICS_def TACTICS_items_def crisis_texts_def)

lemma crisis_texts_good: "length (crisis_texts c) = 3 \<and> list_all (\<lambda>v. v \<noteq> []) (crisis_texts c)"
  using TACTICS_good [OF TACTICS_crisis [of c]] by (simp add: good_entry_def)

lemma rotated_truthy: "TACTICS k \<noteq> None \<Longrightarrow> truthy (rotated k h)"
proof -
  assume "TACTICS k \<noteq> None"
  then obtain e where e: "TACTICS k = Some e" by blast
  from TACTICS_good [OF e] show ?thesis
  proof (cases e)
    case (Single s)
    with e \<open>good_entry e\<close> show ?thesis by (simp add: rotated_def truthy_def good_entry_def)
  next
    case (Variants vs)
    with \<open>good_entry e\<close> have len: "length vs = 3" and ne: "\<forall>v\<in>set vs. v \<noteq> []"
      by (simp_all add: good_entry_def list_all_iff)
    have "vs ! ((h div 4) mod length vs) \<in> set vs" using len by simp
    with ne have "vs ! ((h div 4) mod length vs) \<noteq> []" by blast
    with e Variants show ?thesis by (simp add: rotated_def truthy_def)
  qed
qed

lemma hits_of_init: "hits_of rotation_init k = 0"
  by (simp add: hits_of_def dict_get_def rotation_init_def)

lemma rotated_None: "TACTICS k = None \<Longrightarrow> rotated k h = None"
  by (simp add: rotated_def)

lemma rotated_crisis_truthy: "truthy (rotated (Crisis c) h)"
  by (rule rotated_truthy) (simp add: TACTICS_crisis)

lemma rotated_crisis: "rotated (Crisis c) h = Some (crisis_texts c ! ((h div 4) mod 3))"
  using crisis_texts_good [of c] by (simp add: rotated_def TACTICS_crisis)

text \<open>
  Claim C5. For a key whose catalogue entry is a list of variants, a lookup returns the
  variant at index \<open>(h div 4) mod variantCount\<close>, where \<open>h\<close> is the hit count of the key
  before the call, and leaves the hit count at \<open>h + 1\<close>. Twelve consecutive lookups of a
  key with three variants and hit count 0 return the variants 0,0,0,0,1,1,1,1,2,2,2,2.
\<close>

theorem rotation_every_four:
  assumes "TACTICS key = Some (Variants entry)"
  shows "fst (get_tactic key st)
           = Some (entry ! ((hits_of st key div ROTATION_EVERY) mod length entry))
         \<and> ROTATION_EVERY = 4
         \<and> hits_of (snd (get_tactic key st)) key = hits_of st key + 1
         \<and> (length entry = 3 \<and> hits_of st key = 0 \<longrightarrow>
              fst (run_lookups (replicate 12 key) st)
              = map (\<lambda>i. Some (entry ! i)) [0, 0, 0, 0, 1, 1, 1, 1, 2, 2, 2, 2])"
proof -
  have r: "rotated key h = Some (entry ! ((h div 4) mod length entry))" for h
    using assms by (simp add: rotated_def)
  have a: "fst (get_tactic key st)
           = Some (entry ! ((hits_of st key div ROTATION_EVERY) mod length entry))"
    by (simp add: get_tactic_fst r ROTATION_EVERY_def)
  have b: "fst (run_lookups (replicate 12 key) st)
           = map (\<lambda>i. Some (entry ! i)) [0, 0, 0, 0, 1, 1, 1, 1, 2, 2, 2, 2]"
    if "length entry = 3" "hits_of st key = 0"
    using that by (simp add: run_lookups_replicate upt_12 r)
  from a b show ?thesis by (simp add: ROTATION_EVERY_def get_tactic_hits_of)
qed

theorem rotation_every_four_example:
  "fst (run_lookups (replicate 12 (Crisis stress_spike)) rotation_init)
   = map (\<lambda>i. Some (TACTICS_stress_spike ! i)) [0, 0, 0, 0, 1, 1, 1, 1, 2, 2, 2, 2]
   \<and> TACTICS (Crisis stress_spike) = Some (Variants TACTICS_stress_spike)"
  using rotation_every_four [of "Crisis stress_spike" TACTICS_stress_spike rotation_init]
    TACTICS_crisis [of stress_spike] crisis_texts_good [of stress_spike]
  by (simp add: crisis_texts_def hits_of_init)

text \<open>
  Claim C6. A lookup of a different key deletes the counter of the key looked up before:
  after two lookups of \<open>K1\<close> and one of \<open>K2\<close>, \<open>K1\<close> has no counter, so that the next
  lookup of \<open>K1\<close> reads hit count 0 and answers as a freshly initialised tracker does
  (variant 0), leaving the count at 1 instead of 3. In every state reached from the initial
  one by lookups, the hits map has an entry for the last key looked up and for no other.
\<close>

theorem key_switch_resets:
  assumes "K1 \<noteq> K2"
  shows "hits_of (snd (run_lookups [K1, K1] st)) K1 = hits_of st K1 + 2
         \<and> key_hit_counts (snd (run_lookups [K1, K1, K2] st)) K1 = None
         \<and> hits_of (snd (run_lookups [K1, K1, K2] st)) K1 = 0
         \<and> fst (get_tactic K1 (snd (run_lookups [K1, K1, K2] st))) = fst (get_tactic K1 rotation_init)
         \<and> fst (get_tactic K1 (snd (run_lookups [K1, K1, K2] st)))
             = (case TACTICS K1 of None \<Rightarrow> None | Some (Single s) \<Rightarrow> Some s
                | Some (Variants entry) \<Rightarrow> Some (entry ! 0))
         \<and> key_hit_counts (snd (run_lookups [K1, K1, K2, K1] st)) K1 = Some 1
         \<and> dom (key_hit_counts (snd (run_lookups ks rotation_init)))
             = (if ks = [] then {} else {last ks})"
proof -
  let ?st2 = "snd (get_tactic K1 (snd (get_tactic K1 st)))"
  let ?st3 = "snd (get_tactic K2 ?st2)"
  have s2: "snd (run_lookups [K1, K1] st) = ?st2" by (simp add: split_beta)
  have s3: "snd (run_lookups [K1, K1, K2] st) = ?st3" by (simp add: split_beta)
  have s4: "snd (run_lookups [K1, K1, K2, K1] st) = snd (get_tactic K1 ?st3)"
    by (simp add: split_beta)
  have a: "hits_of ?st2 K1 = hits_of st K1 + 2" by (simp add: get_tactic_hits_of)
  have b: "key_hit_counts ?st3 K1 = None"
    using assms by (simp add: get_tactic_pop get_tactic_last_key)
  then have c: "hits_of ?st3 K1 = 0" by (simp add: hits_of_def dict_get_def)
  have i: "hits_of rotation_init K1 = 0" by (rule hits_of_init)
  have d: "fst (get_tactic K1 ?st3) = fst (get_tactic K1 rotation_init)"
    by (simp add: get_tactic_fst c i)
  have e: "fst (get_tactic K1 ?st3)
             = (case TACTICS K1 of None \<Rightarrow> None | Some (Single s) \<Rightarrow> Some s
                | Some (Variants entry) \<Rightarrow> Some (entry ! 0))"
    by (simp add: get_tactic_fst c rotated_def split: option.splits entry.splits)
  have f: "key_hit_counts (snd (get_tactic K1 ?st3)) K1 = Some 1"
    by (simp add: get_tactic_hits c)
  have g: "dom (key_hit_counts (snd (run_lookups ks rotation_init)))
             = (if ks = [] then {} else {last ks})"
    by (simp add: run_lookups_dom single_counter_init) (simp add: rotation_init_def)
  from a b c d e f g show ?thesis unfolding s2 s3 s4 by blast
qed

theorem key_switch_resets_example:
  "key_hit_counts
     (snd (run_lookups [Crisis stress_spike, Crisis stress_spike, Crisis attention_lost] rotation_init))
     (Crisis stress_spike) = None
   \<and> fst (get_tactic (Crisis stress_spike)
        (snd (run_lookups [Crisis stress_spike, Crisis stress_spike, Crisis attention_lost] rotation_init)))
     = Some (TACTICS_stress_spike ! 0)
   \<and> hits_of (snd (run_lookups [Crisis stress_spike, Crisis stress_spike] rotation_init))
        (Crisis stress_spike) = 2"
proof -
  have n: "Crisis stress_spike \<noteq> Crisis attention_lost" by simp
  from key_switch_resets [OF n, of rotation_init "[]"] show ?thesis
    by (simp del: run_lookups.simps
        add: TACTICS_crisis crisis_texts_def hits_of_init get_tactic_fst rotated_crisis)
qed

subsection \<open>Properties of the selection cascade\<close>

text \<open>The substring test is the one of Python: some prefix and suffix surround the keyword.\<close>

lemma starts_with_iff: "starts_with kw a \<longleftrightarrow> (\<exists>s. a = kw @ s)"
  by (induction kw a rule: starts_with.induct) auto

lemma contains_iff: "contains kw a \<longleftrightarrow> (\<exists>p s. a = p @ kw @ s)"
proof (induction a)
  case Nil
  show ?case by auto
next
  case (Cons c cs)
  have "(\<exists>p s. c # cs = p @ kw @ s) \<longleftrightarrow> (\<exists>s. c # cs = kw @ s) \<or> (\<exists>p s. cs = p @ kw @ s)"
  proof
    assume "\<exists>p s. c # cs = p @ kw @ s"
    then obtain p s where ps: "c # cs = p @ kw @ s" by blast
    show "(\<exists>s. c # cs = kw @ s) \<or> (\<exists>p s. cs = p @ kw @ s)"
    proof (cases p)
      case Nil
      with ps show ?thesis by auto
    next
      case (Cons x p')
      with ps have "cs = p' @ kw @ s" by simp
      then show ?thesis by blast
    qed
  next
    assume "(\<exists>s. c # cs = kw @ s) \<or> (\<exists>p s. cs = p @ kw @ s)"
    then show "\<exists>p s. c # cs = p @ kw @ s"
    proof
      assume "\<exists>s. c # cs = kw @ s"
      then obtain s where "c # cs = [] @ kw @ s" by auto
      then show ?thesis by blast
    next
      assume "\<exists>p s. cs = p @ kw @ s"
      then obtain p s where "c # cs = (c # p) @ kw @ s" by auto
      then show ?thesis by blast
    qed
  qed
  with Cons.IH show ?case by (simp add: starts_with_iff)
qed

lemma get_tactic_pair: "get_tactic k st = (rotated k (hits_of st k), snd (get_tactic k st))"
  by (simp add: get_tactic_fst [symmetric])

lemma alert_section_key:
  "alert_section alerts st = map_option (\<lambda>c. get_tactic (Crisis c) st) (alert_key alerts)"
proof -
  have "mentions_attention = (\<lambda>a. list_ex (\<lambda>kw. contains kw a)
          [''Attention'', ''attention'', ''disengaged'', ''Disengaged''])"
    and "mentions_engagement
          = (\<lambda>a. contains ''Engagement dropping'' a \<or> contains ''Very low engagement'' a)"
    and "mentions_stress = (\<lambda>a. contains ''Stress'' a \<or> contains ''stress'' (lower a))"
    by (simp_all add: fun_eq_iff mentions_attention_def mentions_engagement_def mentions_stress_def)
  then show ?thesis by (simp add: alert_section_def alert_key_def)
qed

lemma trend_section_key:
  "trend_section current history st
     = map_option (\<lambda>c. get_tactic (Crisis c) st) (trend_key current history)"
  by (simp add: trend_section_def trend_key_def Let_def)

lemma fuzzy_loop_result: "fst (fuzzy_loop ks st) = None \<or> truthy (fst (fuzzy_loop ks st))"
  by (induction ks arbitrary: st) (simp_all add: split_beta)

lemma fuzzy_loop_default_idx: "default_idx (snd (fuzzy_loop ks st)) = default_idx st"
  by (induction ks arbitrary: st) (simp_all add: split_beta get_tactic_default_idx)

lemma fuzzy_loop_single_counter: "single_counter st \<Longrightarrow> single_counter (snd (fuzzy_loop ks st))"
  by (induction ks arbitrary: st) (simp_all add: split_beta get_tactic_single_counter)

lemma default_pool_good: "length default_pool = 8 \<and> list_all (\<lambda>v. v \<noteq> []) default_pool"
  by (simp add: default_pool_def)

lemma default_pool_nth: "default_pool ! (i mod length default_pool) \<noteq> []"
proof -
  have "default_pool ! (i mod length default_pool) \<in> set default_pool"
    using default_pool_good by simp
  with default_pool_good show ?thesis by (auto simp: list_all_iff)
qed

lemma flow_state_message_nonempty: "flow_state_message \<noteq> []"
  by (simp add: flow_state_message_def)

lemma get_tactic_crisis_truthy: "truthy (fst (get_tactic (Crisis c) st))"
  by (simp add: get_tactic_fst rotated_crisis_truthy)

lemma state_section_truthy: "truthy (fst (state_section current st))"
  by (simp add: state_section_def Let_def split_beta get_tactic_crisis_truthy)
     (simp add: truthy_def default_pool_nth flow_state_message_nonempty)

lemma psychology_fallback_truthy: "truthy (fst (psychology_fallback current history alerts st))"
  by (simp add: psychology_fallback_def alert_section_key trend_section_key
      state_section_truthy get_tactic_crisis_truthy split: option.splits)

lemma truthy_Some: "truthy r \<Longrightarrow> \<exists>s. r = Some s \<and> s \<noteq> []"
  by (cases r) (simp_all add: truthy_def)

text \<open>
  Claim C1. \<^const>\<open>psychology_fallback\<close> is a total function, and for every current
  snapshot, history, alert list and rotation state it returns a non-empty string (never
  Python's \<^verbatim>\<open>None\<close>, never the empty string): a lookup that misses the catalogue
  leads on to a crisis key, the fuzzy keys, the flow-state message or the rotating default.
\<close>

theorem select_returns_text:
  "\<exists>s. fst (psychology_fallback current history alerts st) = Some s \<and> s \<noteq> []"
  by (rule truthy_Some) (rule psychology_fallback_truthy)

lemma snapshot_fields:
  "emotion (snapshot e a eng st) = e" "attention (snapshot e a eng st) = a"
  "engagement_score (snapshot e a eng st) = eng" "stress_score (snapshot e a eng st) = st"
  by (simp_all add: snapshot_def)

lemma TACTICS_miss_happy_medium_mid_mid: "TACTICS (TK ''happy'' ''medium'' ''mid'' ''mid'') = None"
  by (simp add: TACTICS_def TACTICS_items_def)

lemma state_section_default_example:
  "fst (state_section (snapshot ''happy'' ''medium'' 50 50) st)
     = Some (default_pool ! (default_idx st mod length default_pool))
   \<and> default_idx (snd (state_section (snapshot ''happy'' ''medium'' 50 50) st)) = default_idx st + 1"
  by (simp add: state_section_def Let_def split_beta snapshot_fields zone_def get_tactic_fst
      rotated_None TACTICS_miss_happy_medium_mid_mid truthy_def get_tactic_default_idx)













theorem select_returns_text_example:
  "fst (psychology_fallback (snapshot ''happy'' ''medium'' 50 50) [] [] rotation_init)
     = Some (default_pool ! 0)
   \<and> default_pool ! 0 \<noteq> []"
  using select_returns_text [of "snapshot ''happy'' ''medium'' 50 50" "[]" "[]" rotation_init]
    state_section_default_example [of rotation_init]
  by (simp add: psychology_fallback_def alert_section_key alert_key_def trend_section_key
      trend_key_def) (simp add: rotation_init_def)

lemma psychology_fallback_state_section:
  "alert_key alerts = None \<Longrightarrow> trend_key current history = None \<Longrightarrow>
   psychology_fallback current history alerts st = state_section current st"
  by (simp add: psychology_fallback_def alert_section_key trend_section_key)

lemma alert_key_Nil: "alert_key [] = None"
  by (simp add: alert_key_def)

lemma trend_key_short: "length history < 3 \<Longrightarrow> trend_key current history = None"
  by (simp add: trend_key_def)

lemma state_section_low_attention:
  "attention current = ''low'' \<Longrightarrow>
   state_section current st =
     (case get_tactic (TK (emotion current) ''low'' (zone (stress_score current) 35 65)
                         (zone (engagement_score current) 35 65)) st of
        (result, st') \<Rightarrow>
          if truthy result then (result, st') else get_tactic (Crisis attention_lost) st')"
  by (simp add: state_section_def Let_def)

lemma TACTICS_fearful_low_high_low:
  "TACTICS (TK ''fearful'' ''low'' ''high'' ''low'') = Some (Variants TACTICS_fearful_low_high_low)"
  by (simp add: TACTICS_def TACTICS_items_def)

text \<open>
  Claim C8. With no alerts and fewer than three history entries, a snapshot whose
  attention is \<^verbatim>\<open>low\<close> is answered by the attention override, whatever its stress: the
  catalogue is looked up at (emotion, low, stress zone, engagement zone), and only a miss
  leads on, to the crisis key \<^verbatim>\<open>attention_lost\<close>. For emotion \<^verbatim>\<open>fearful\<close>, stress 85 and
  engagement 20 the call is the lookup of (fearful, low, high, low), which is in the
  catalogue.
\<close>

theorem low_attention_override_first:
  assumes "length history < 3" and "attention current = ''low''"
  shows "psychology_fallback current history [] st =
           (case get_tactic (TK (emotion current) ''low'' (zone (stress_score current) 35 65)
                               (zone (engagement_score current) 35 65)) st of
              (result, st') \<Rightarrow>
                if truthy result then (result, st') else get_tactic (Crisis attention_lost) st')
         \<and> (emotion current = ''fearful'' \<and> stress_score current = 85 \<and> engagement_score current = 20
              \<longrightarrow> psychology_fallback current history [] st
                    = get_tactic (TK ''fearful'' ''low'' ''high'' ''low'') st
                  \<and> TACTICS (TK ''fearful'' ''low'' ''high'' ''low'')
                    = Some (Variants TACTICS_fearful_low_high_low))"
proof -
  have a: "psychology_fallback current history [] st = state_section current st"
    using assms by (simp add: psychology_fallback_state_section alert_key_Nil trend_key_short)
  have b: "truthy (fst (get_tactic (TK ''fearful'' ''low'' ''high'' ''low'') st))"
    by (simp add: get_tactic_fst rotated_truthy TACTICS_fearful_low_high_low)
  show ?thesis
    using b assms(2)
    by (simp add: a state_section_low_attention TACTICS_fearful_low_high_low zone_def split_beta)
qed

theorem low_attention_override_first_example:
  "psychology_fallback (snapshot ''fearful'' ''low'' 20 85)
     [snapshot ''neutral'' ''high'' 80 10, snapshot ''neutral'' ''high'' 80 10] [] rotation_init
   = get_tactic (TK ''fearful'' ''low'' ''high'' ''low'') rotation_init
   \<and> fst (get_tactic (TK ''fearful'' ''low'' ''high'' ''low'') rotation_init)
     = Some (TACTICS_fearful_low_high_low ! 0)"
proof -
  have h1: "length [snapshot ''neutral'' ''high'' 80 10, snapshot ''neutral'' ''high'' 80 10] < 3"
    by simp
  have h2: "attention (snapshot ''fearful'' ''low'' 20 85) = ''low''"
    by (simp add: snapshot_fields)
  from low_attention_override_first [OF h1 h2, of rotation_init, THEN conjunct2]
  have "psychology_fallback (snapshot ''fearful'' ''low'' 20 85)
          [snapshot ''neutral'' ''high'' 80 10, snapshot ''neutral'' ''high'' 80 10] [] rotation_init
        = get_tactic (TK ''fearful'' ''low'' ''high'' ''low'') rotation_init"
    by (simp add: snapshot_fields)
  then show ?thesis
    by (simp add: get_tactic_fst rotated_def TACTICS_fearful_low_high_low hits_of_init)
qed

lemma state_section_miss:
  assumes "miss_path current c"
  shows "\<exists>K. K \<noteq> Crisis c \<and> TACTICS K = None
             \<and> state_section current st = get_tactic (Crisis c) (snd (get_tactic K st))"
proof (cases "attention current = ''low''")
  case True
  let ?K = "TK (emotion current) ''low'' (zone (stress_score current) 35 65)
              (zone (engagement_score current) 35 65)"
  from assms True have low: "TACTICS ?K = None" "c = attention_lost"
    by (simp_all add: miss_path_def)
  have "state_section current st = get_tactic (Crisis c) (snd (get_tactic ?K st))"
    using True low
    by (simp add: state_section_def Let_def split_beta get_tactic_fst rotated_None truthy_def)
  with low show ?thesis by blast
next
  case False
  let ?K = "TK (emotion current) (attention current) ''high'' (zone (engagement_score current) 35 65)"
  from assms False have stress: "stress_score current > 65" "TACTICS ?K = None" "c = stress_spike"
    by (simp_all add: miss_path_def)
  have "state_section current st = get_tactic (Crisis c) (snd (get_tactic ?K st))"
    using False stress
    by (simp add: state_section_def Let_def split_beta get_tactic_fst rotated_None truthy_def)
  with stress show ?thesis by blast
qed

lemma two_lookups:
  assumes inv: "single_counter st" and ne: "K \<noteq> Crisis c"
  defines "st' \<equiv> snd (get_tactic (Crisis c) (snd (get_tactic K st)))"
  shows "fst (get_tactic (Crisis c) (snd (get_tactic K st))) = Some (crisis_texts c ! 0)"
    and "key_hit_counts st' = [Crisis c \<mapsto> 1]"
    and "last_key st' = Some (Crisis c)"
    and "single_counter st'"
proof -
  let ?st1 = "snd (get_tactic K st)"
  have inv1: "single_counter ?st1" using inv by (rule get_tactic_single_counter)
  have last1: "last_key ?st1 = Some K" by (rule get_tactic_last_key)
  have "dom (key_hit_counts ?st1) = {K}" using inv by (rule get_tactic_dom)
  with ne have "key_hit_counts ?st1 (Crisis c) = None" by (auto simp: dom_def)
  then have "hits_of ?st1 (Crisis c) = 0" by (simp add: hits_of_def dict_get_def)
  then show "fst (get_tactic (Crisis c) ?st1) = Some (crisis_texts c ! 0)"
    by (simp add: get_tactic_fst rotated_crisis)
  show "key_hit_counts st' = [Crisis c \<mapsto> 1]"
    unfolding st'_def using inv1 last1 ne by (rule get_tactic_switch)
  show "last_key st' = Some (Crisis c)" unfolding st'_def by (rule get_tactic_last_key)
  show "single_counter st'" unfolding st'_def using inv1 by (rule get_tactic_single_counter)
qed

lemma psychology_fallback_miss:
  assumes "single_counter st" "alert_key alerts = None" "trend_key current history = None"
    "miss_path current c"
  shows "fst (psychology_fallback current history alerts st) = Some (crisis_texts c ! 0)"
    and "key_hit_counts (snd (psychology_fallback current history alerts st)) = [Crisis c \<mapsto> 1]"
    and "single_counter (snd (psychology_fallback current history alerts st))"
proof -
  from state_section_miss [OF assms(4), of st] obtain K where
    K: "K \<noteq> Crisis c" "state_section current st = get_tactic (Crisis c) (snd (get_tactic K st))"
    by blast
  have eq: "psychology_fallback current history alerts st
              = get_tactic (Crisis c) (snd (get_tactic K st))"
    using assms(2,3) K(2) by (simp add: psychology_fallback_state_section)
  show "fst (psychology_fallback current history alerts st) = Some (crisis_texts c ! 0)"
    unfolding eq using assms(1) K(1) by (rule two_lookups)
  show "key_hit_counts (snd (psychology_fallback current history alerts st)) = [Crisis c \<mapsto> 1]"
    unfolding eq using assms(1) K(1) by (rule two_lookups)
  show "single_counter (snd (psychology_fallback current history alerts st))"
    unfolding eq using assms(1) K(1) by (rule two_lookups)
qed

lemma run_fallback_miss:
  assumes "alert_key alerts = None" "trend_key current history = None" "miss_path current c"
  shows "single_counter st \<Longrightarrow>
         fst (run_fallback n current history alerts st) = replicate n (Some (crisis_texts c ! 0))
         \<and> single_counter (snd (run_fallback n current history alerts st))
         \<and> (n > 0 \<longrightarrow> key_hit_counts (snd (run_fallback n current history alerts st))
                          = [Crisis c \<mapsto> 1])"
proof (induction n arbitrary: st)
  case 0
  then show ?case by simp
next
  case (Suc n)
  let ?st1 = "snd (psychology_fallback current history alerts st)"
  note m = psychology_fallback_miss [OF Suc.prems assms]
  note ih = Suc.IH [OF m(3)]
  have counts: "key_hit_counts (snd (run_fallback n current history alerts ?st1)) = [Crisis c \<mapsto> 1]"
  proof (cases n)
    case 0
    with m(2) show ?thesis by simp
  next
    case (Suc k)
    then have "n > 0" by simp
    with ih show ?thesis by blast
  qed
  from m(1) ih counts show ?case by (simp add: split_beta)
qed

lemma psychology_fallback_single_counter:
  "single_counter st \<Longrightarrow> single_counter (snd (psychology_fallback current history alerts st))"
proof -
  assume inv: "single_counter st"
  have upd: "single_counter (s\<lparr>default_idx := i\<rparr>) = single_counter s" for s i
    by (simp add: single_counter_def)
  have "single_counter (snd (state_section current st))"
    using inv
    by (simp add: state_section_def Let_def split_beta get_tactic_single_counter
        fuzzy_loop_single_counter upd)
  with inv show ?thesis
    by (simp add: psychology_fallback_def alert_section_key trend_section_key
        get_tactic_single_counter split: option.splits)
qed

text \<open>
  Claim C10. A rotation lookup updates the rotation state whether or not the key is in the
  catalogue: afterwards the key is the last key, its counter is one more than the count
  read, and the counter of a different previous key is gone; for a key outside the
  catalogue the lookup returns nothing all the same. Hence a call of the cascade that takes
  a hard override, misses the catalogue and ends in the lookup of a crisis key finds that
  key's counter absent every time: made any number of times in a row from a state in which
  only the last key has a counter (every state reached from the initial one is such), the
  call always returns variant 0 of the crisis entry and leaves its counter at 1.
\<close>

theorem miss_then_crisis_never_rotates:
  "last_key (snd (get_tactic key st)) = Some key
   \<and> key_hit_counts (snd (get_tactic key st)) key = Some (hits_of st key + 1)
   \<and> (last_key st = Some old \<and> old \<noteq> key \<longrightarrow> key_hit_counts (snd (get_tactic key st)) old = None)
   \<and> (TACTICS key = None \<longrightarrow> fst (get_tactic key st) = None)
   \<and> (single_counter st \<and> alert_key alerts = None \<and> trend_key current history = None
        \<and> miss_path current c \<longrightarrow>
        fst (run_fallback n current history alerts st) = replicate n (Some (crisis_texts c ! 0))
        \<and> (n > 0 \<longrightarrow> key_hit_counts (snd (run_fallback n current history alerts st))
                         = [Crisis c \<mapsto> 1]))
   \<and> single_counter rotation_init
   \<and> (single_counter st \<longrightarrow> single_counter (snd (psychology_fallback current history alerts st)))"
  using run_fallback_miss [of alerts current history c st n]
  by (simp add: get_tactic_last_key get_tactic_hits get_tactic_pop get_tactic_fst rotated_None
      single_counter_init psychology_fallback_single_counter)

lemma TACTICS_miss_happy_low_mid_mid: "TACTICS (TK ''happy'' ''low'' ''mid'' ''mid'') = None"
  by (simp add: TACTICS_def TACTICS_items_def)

theorem miss_then_crisis_never_rotates_example:
  "fst (run_fallback 5 (snapshot ''happy'' ''low'' 50 50) [] [] rotation_init)
     = replicate 5 (Some (TACTICS_attention_lost ! 0))
   \<and> key_hit_counts (snd (run_fallback 5 (snapshot ''happy'' ''low'' 50 50) [] [] rotation_init))
     = [Crisis attention_lost \<mapsto> 1]
   \<and> fst (get_tactic (TK ''happy'' ''low'' ''mid'' ''mid'') rotation_init) = None
   \<and> last_key (snd (get_tactic (TK ''happy'' ''low'' ''mid'' ''mid'') rotation_init))
     = Some (TK ''happy'' ''low'' ''mid'' ''mid'')"
proof -
  have p: "miss_path (snapshot ''happy'' ''low'' 50 50) attention_lost"
    by (simp add: miss_path_def snapshot_fields zone_def TACTICS_miss_happy_low_mid_mid)
  have t: "trend_key (snapshot ''happy'' ''low'' 50 50) [] = None" by (simp add: trend_key_short)
  from miss_then_crisis_never_rotates
    [of "TK ''happy'' ''low'' ''mid'' ''mid''" rotation_init _ "[]"
        "snapshot ''happy'' ''low'' 50 50" "[]" attention_lost 5]
  show ?thesis
    by (simp add: p t alert_key_Nil single_counter_init TACTICS_miss_happy_low_mid_mid
        crisis_texts_def)
qed

subsection \<open>Properties of one request\<close>

lemma advice_history_eq:
  "advice_history state_memory current_state
     = (if length state_memory < 5 then state_memory else tl state_memory)"
proof (cases "length state_memory < 5")
  case True
  then show ?thesis by (simp add: advice_history_def append_memory_def)
next
  case False
  then have ne: "state_memory \<noteq> []" by auto
  then have "tl (state_memory @ [current_state]) = tl state_memory @ [current_state]" by simp
  with False show ?thesis by (simp add: advice_history_def append_memory_def)
qed

lemma trend_key_tl:
  assumes "length history \<ge> 4"
  shows "trend_key current (tl history) = trend_key current history"
proof -
  from assms obtain n where n: "length history = n + 4"
    by (metis add.commute le_Suc_ex)
  have l: "length (tl history) - 3 = n" "length history - 3 = Suc n" using n by simp_all
  have nth: "tl history ! n = history ! Suc n" using n by (simp add: nth_tl)
  have dr: "drop n (tl history) = drop (Suc n) history" by (simp add: drop_Suc)
  have g: "length (tl history) \<ge> 3" "length history \<ge> 3" using n by simp_all
  show ?thesis unfolding trend_key_def l using g by (simp add: nth dr)
qed

lemma trend_key_advice_history:
  "trend_key current (advice_history state_memory current) = trend_key current state_memory"
  by (simp add: advice_history_eq trend_key_tl)

lemma psychology_fallback_advice_history:
  "psychology_fallback current (advice_history state_memory current) alerts st
     = psychology_fallback current state_memory alerts st"
proof -
  have "trend_section current (advice_history state_memory current) st
          = trend_section current state_memory st"
    by (simp add: trend_section_key trend_key_advice_history)
  then show ?thesis unfolding psychology_fallback_def by (simp only:)
qed

text \<open>
  The claim C9 as stated fails once the store is full: the history given to the cascade
  is then not the store as it was before the append, but that store without its oldest
  entry, and it is cut from the store after the append and the eviction.
\<close>

theorem full_memory_advice_history:
  "length full_memory = 5
   \<and> advice_history full_memory (snapshot ''sad'' ''low'' 20 60) = tl full_memory
   \<and> advice_history full_memory (snapshot ''sad'' ''low'' 20 60) \<noteq> full_memory
   \<and> length (advice_history full_memory (snapshot ''sad'' ''low'' 20 60)) = 4"
  by (simp add: advice_history_eq) (simp add: full_memory_def)

text \<open>
  Claim C9, amended. \<^const>\<open>detect_alerts\<close> is given the store as it is before the append.
  The append and the eviction come next, before the advice is computed; the cascade is given
  the store after them without its last entry, the current snapshot. That history is the
  store before the append when it held fewer than five snapshots, and the store before the
  append without its oldest snapshot otherwise; on it the cascade returns the same advice
  and the same rotation state as on the store before the append.
\<close>

theorem analyze_histories:
  "analyze current (state_memory, st)
     = ((fst (psychology_fallback current (advice_history state_memory current)
                (detect_alerts current state_memory) st),
         detect_alerts current state_memory),
        (append_memory state_memory current,
         snd (psychology_fallback current (advice_history state_memory current)
                (detect_alerts current state_memory) st)))
   \<and> advice_history state_memory current = butlast (append_memory state_memory current)
   \<and> advice_history state_memory current
       = (if length state_memory < 5 then state_memory else tl state_memory)
   \<and> psychology_fallback current (advice_history state_memory current) alerts st
       = psychology_fallback current state_memory alerts st"
proof (intro conjI)
  show "analyze current (state_memory, st)
     = ((fst (psychology_fallback current (advice_history state_memory current)
                (detect_alerts current state_memory) st),
         detect_alerts current state_memory),
        (append_memory state_memory current,
         snd (psychology_fallback current (advice_history state_memory current)
                (detect_alerts current state_memory) st)))"
    by (simp add: analyze_def Let_def split_beta get_agent_advice_def advice_history_def)
  show "advice_history state_memory current = butlast (append_memory state_memory current)"
    by (simp add: advice_history_def)
  show "advice_history state_memory current
       = (if length state_memory < 5 then state_memory else tl state_memory)"
    by (rule advice_history_eq)
  show "psychology_fallback current (advice_history state_memory current) alerts st
       = psychology_fallback current state_memory alerts st"
    by (rule psychology_fallback_advice_history)
qed

theorem analyze_histories_example:
  "snd (fst (analyze (snapshot ''sad'' ''low'' 20 60) (full_memory, rotation_init)))
     = [alert_engagement_dropping, alert_stress_spiking, alert_very_low_engagement,
        alert_attention_lost]
   \<and> fst (snd (analyze (snapshot ''sad'' ''low'' 20 60) (full_memory, rotation_init)))
     = tl full_memory @ [snapshot ''sad'' ''low'' 20 60]"
proof -
  have d: "detect_alerts (snapshot ''sad'' ''low'' 20 60) full_memory
           = [alert_engagement_dropping, alert_stress_spiking, alert_very_low_engagement,
              alert_attention_lost]"
    by (simp add: detect_alerts_def Let_def full_memory_def snapshot_fields)
  have a: "append_memory full_memory (snapshot ''sad'' ''low'' 20 60)
           = tl full_memory @ [snapshot ''sad'' ''low'' 20 60]"
    by (simp add: append_memory_def full_memory_def)
  from analyze_histories [of "snapshot ''sad'' ''low'' 20 60" full_memory rotation_init "[]"]
  show ?thesis by (simp add: d a)
qed

end
